theory Spec2Isabelle
  imports Complex_Main
begin

section \<open>Astronomia: coordinate transformation engine\<close>

text \<open>
  Shallow embedding of \<^verbatim>\<open>core/utils.py\<close>, \<^verbatim>\<open>core/constants.py\<close> and
  \<^verbatim>\<open>chapters/coordinates.py\<close>. Angles are real numbers (scalar calls; numpy batches are
  not modelled). Python exceptions are values of type \<open>error\<close>; a function that can raise
  returns \<open>error + 'a\<close> with \<open>Inl\<close> for the exception.
\<close>

subsection \<open>Exceptions\<close>

text \<open>
  The three \<^verbatim>\<open>ValueError\<close>s raised by \<^verbatim>\<open>coordinates.py\<close> are told apart by their message:
  \<^item> \<open>InvalidUnit dir u\<close>: "Unidad de entrada desconocida: u" (\<open>dir = ''entrada''\<close>) or
    "Unidad de salida desconocida: u" (\<open>dir = ''salida''\<close>);
  \<^item> \<open>UnsupportedSystem d\<close>: "Sistema destino no soportado: d";
  \<^item> \<open>MissingContextParameter k s\<close>: "Falta parametro 'k' para el sistema s".
  The others are raised by the Python runtime: \<open>AttributeError a\<close> when the module
  \<^verbatim>\<open>utils\<close> has no attribute \<open>a\<close>, \<open>KeyError k\<close> for \<^verbatim>\<open>ctx[k]\<close> on an absent key,
  \<open>IndexError\<close> for indexing a 0-dimensional array. \<open>DomainFault\<close> stands for an inverse
  sine or cosine taken outside \<open>[-1, 1]\<close> (numpy answers \<^verbatim>\<open>nan\<close> with a warning).
  \<open>BatchValue\<close> marks a triplet handed in under a scalar unit, which numpy would treat
  as a batch of three angles: outside the scalar model.
\<close>

datatype error =
    InvalidUnit string string
  | UnsupportedSystem string
  | MissingContextParameter string string
  | AttributeError string
  | KeyError string
  | IndexError
  | DomainFault
  | BatchValue

text \<open>The error taxonomy of the specification.\<close>

fun taxonomy :: "error \<Rightarrow> bool" where
  "taxonomy (InvalidUnit dir u) = True"
| "taxonomy (UnsupportedSystem d) = True"
| "taxonomy (MissingContextParameter k s) = True"
| "taxonomy e = False"

text \<open>A failed attribute lookup.\<close>

fun attribute_error :: "error \<Rightarrow> bool" where
  "attribute_error (AttributeError a) = True"
| "attribute_error e = False"

subsection \<open>Values\<close>

text \<open>A coordinate as the caller writes it: a float, or a tuple \<^verbatim>\<open>(g, m, s)\<close>.\<close>

datatype coord = Num real | Sexa real real real

text \<open>\<^verbatim>\<open>class Sistema\<close> and \<^verbatim>\<open>class Unidad\<close>: string constants.\<close>

definition HORIZONTAL :: string where "HORIZONTAL = ''horizontal''"
definition HORARIO :: string where "HORARIO = ''horario''"
definition ECUATORIAL :: string where "ECUATORIAL = ''ecuatorial''"
definition ECLIPTICO :: string where "ECLIPTICO = ''ecliptico''"
definition GALACTICO :: string where "GALACTICO = ''galactico''"

definition RAD :: string where "RAD = ''rad''"
definition DEG :: string where "DEG = ''deg''"
definition HOUR :: string where "HOUR = ''hour''"
definition DMS :: string where "DMS = ''dms''"
definition HMS :: string where "HMS = ''hms''"

definition sistemas :: "string list" where
  "sistemas = [HORIZONTAL, HORARIO, ECUATORIAL, ECLIPTICO, GALACTICO]"

definition unidades :: "string list" where
  "unidades = [RAD, DEG, HOUR, DMS, HMS]"

subsection \<open>numpy\<close>

text \<open>
  \<^verbatim>\<open>np.radians\<close>, \<^verbatim>\<open>np.degrees\<close>, \<^verbatim>\<open>np.sign\<close>, \<^verbatim>\<open>np.abs\<close>, \<^verbatim>\<open>np.clip\<close>, Python's \<^verbatim>\<open>%\<close> on
  floats (the result has the sign of the divisor) and \<^verbatim>\<open>int()\<close> (truncation towards
  zero), over the reals.
\<close>

definition radians :: "real \<Rightarrow> real" where
  "radians x = x * pi / 180"

definition degrees :: "real \<Rightarrow> real" where
  "degrees x = x * 180 / pi"

definition np_clip :: "real \<Rightarrow> real \<Rightarrow> real \<Rightarrow> real" where
  "np_clip x lo hi = min (max x lo) hi"

definition py_mod :: "real \<Rightarrow> real \<Rightarrow> real" where
  "py_mod x y = x - y * of_int \<lfloor>x / y\<rfloor>"

definition py_int :: "real \<Rightarrow> int" where
  "py_int x = (if 0 \<le> x then \<lfloor>x\<rfloor> else \<lceil>x\<rceil>)"

text \<open>
  The trigonometric functions of numpy work on floating-point numbers and are exact only
  up to rounding. The transform library is therefore modelled over any implementation
  \<open>N\<close> of them; \<open>numpy_exact\<close> is the one without rounding error.
\<close>

record numpy =
  np_sin :: "real \<Rightarrow> real"
  np_cos :: "real \<Rightarrow> real"
  np_arcsin :: "real \<Rightarrow> real"
  np_arccos :: "real \<Rightarrow> real"
  np_arctan2 :: "real \<Rightarrow> real \<Rightarrow> real"

definition arctan2 :: "real \<Rightarrow> real \<Rightarrow> real" where
  "arctan2 y x =
     (if 0 < x then arctan (y / x)
      else if x < 0 \<and> 0 \<le> y then arctan (y / x) + pi
      else if x < 0 then arctan (y / x) - pi
      else if 0 < y then pi / 2
      else if y < 0 then - (pi / 2)
      else 0)"

definition numpy_exact :: numpy where
  "numpy_exact = \<lparr>np_sin = sin, np_cos = cos, np_arcsin = arcsin, np_arccos = arccos,
                   np_arctan2 = arctan2\<rparr>"

text \<open>Inverse sine and cosine with their domain: outside \<open>[-1, 1]\<close> there is no value.\<close>

definition arcsin_np :: "numpy \<Rightarrow> real \<Rightarrow> error + real" where
  "arcsin_np N x = (if - 1 \<le> x \<and> x \<le> 1 then Inr (np_arcsin N x) else Inl DomainFault)"

definition arccos_np :: "numpy \<Rightarrow> real \<Rightarrow> error + real" where
  "arccos_np N x = (if - 1 \<le> x \<and> x \<le> 1 then Inr (np_arccos N x) else Inl DomainFault)"

subsection \<open>core/constants.py\<close>

definition EPSILON_J2000 :: real where
  "EPSILON_J2000 = radians (23 + 26 / 60 + 21.448 / 3600)"

subsection \<open>core/utils.py\<close>

definition to_rad :: "real \<Rightarrow> real \<Rightarrow> real \<Rightarrow> real \<Rightarrow> real" where
  "to_rad d m s sign =
     (let deg = \<bar>d\<bar> + m / 60 + s / 3600
      in radians deg * sgn (if sign \<noteq> 0 then sign else 1) * sgn (if d \<noteq> 0 then d else 1))"

text \<open>
  \<^verbatim>\<open>to_hms\<close> starts with \<^verbatim>\<open>rad % (2 * np.pi)\<close>. On floats \<^verbatim>\<open>%\<close> rounds: the exact
  remainder \<open>py_mod x y\<close> is below \<open>y\<close>, but the float that \<^verbatim>\<open>%\<close> returns can be \<open>y\<close>
  itself (\<^verbatim>\<open>-1e-20 % (2 * np.pi)\<close> is \<^verbatim>\<open>2 * np.pi\<close>, and \<^verbatim>\<open>to_hms(-1e-20)\<close> is
  \<^verbatim>\<open>(24, 0, 0.0)\<close>). What the function returns at the upper end of the range depends on
  it, so \<open>to_hms\<close> is modelled over any implementation \<open>fmod\<close> of \<^verbatim>\<open>%\<close>; every one of
  them answers in the closed interval from \<open>0\<close> to the (positive) divisor.
\<close>

definition to_hms :: "(real \<Rightarrow> real \<Rightarrow> real) \<Rightarrow> real \<Rightarrow> int \<times> int \<times> real" where
  "to_hms fmod rad0 =
     (let rad = fmod rad0 (2 * pi);
          hours_dec = degrees rad / 15;
          h = py_int hours_dec;
          rem = (hours_dec - of_int h) * 60;
          m = py_int rem;
          s = (rem - of_int m) * 60
      in (h, m, s))"

definition to_dms :: "real \<Rightarrow> int \<times> int \<times> real" where
  "to_dms rad =
     (let deg_dec0 = degrees rad;
          sign = (if deg_dec0 \<ge> 0 then 1 else - 1);
          deg_dec = \<bar>deg_dec0\<bar>;
          d = py_int deg_dec;
          rem = (deg_dec - of_int d) * 60;
          m = py_int rem;
          s = (rem - of_int m) * 60
      in (sign * d, m, s))"

definition normalize_pi :: "real \<Rightarrow> real" where
  "normalize_pi angle = py_mod (angle + pi) (2 * pi) - pi"

text \<open>
  The module object \<^verbatim>\<open>utils\<close> as \<^verbatim>\<open>coordinates.py\<close> sees it: one optional entry for each
  attribute that \<^verbatim>\<open>utils.py\<close> defines or that \<^verbatim>\<open>coordinates.py\<close> looks up; \<open>None\<close> is an
  attribute the module does not have. \<open>attr_to_rad\<close> is \<^verbatim>\<open>to_rad\<close> called with three
  positional arguments (\<^verbatim>\<open>sign\<close> takes its default 1); \<open>attr_to_hms\<close> is \<open>to_hms\<close>, still
  over the implementation of \<^verbatim>\<open>%\<close>.
\<close>

record utils_module =
  attr_to_rad :: "(real \<Rightarrow> real \<Rightarrow> real \<Rightarrow> real) option"
  attr_to_hms :: "((real \<Rightarrow> real \<Rightarrow> real) \<Rightarrow> real \<Rightarrow> int \<times> int \<times> real) option"
  attr_to_dms :: "(real \<Rightarrow> int \<times> int \<times> real) option"
  attr_normalize_pi :: "(real \<Rightarrow> real) option"
  attr_normalize_rad :: "(real \<Rightarrow> real) option"
  attr_hms_to_rad :: "(real \<Rightarrow> real \<Rightarrow> real \<Rightarrow> real) option"
  attr_rad_to_dms :: "(real \<Rightarrow> coord) option"
  attr_rad_to_hms :: "(real \<Rightarrow> coord) option"

text \<open>
  \<^verbatim>\<open>core/utils.py\<close> as it is in the repository: it defines \<^verbatim>\<open>to_rad\<close>, \<^verbatim>\<open>to_hms\<close>,
  \<^verbatim>\<open>to_dms\<close> and \<^verbatim>\<open>normalize_pi\<close>, and nothing else.
\<close>

definition utils_py :: utils_module where
  "utils_py =
     \<lparr>attr_to_rad = Some (\<lambda>d m s. to_rad d m s 1),
      attr_to_hms = Some to_hms,
      attr_to_dms = Some to_dms,
      attr_normalize_pi = Some normalize_pi,
      attr_normalize_rad = None,
      attr_hms_to_rad = None,
      attr_rad_to_dms = None,
      attr_rad_to_hms = None\<rparr>"

text \<open>\<^verbatim>\<open>utils.normalize_rad(x)\<close>: the attribute is looked up, then called.\<close>

definition call_normalize_rad :: "utils_module \<Rightarrow> real \<Rightarrow> error + real" where
  "call_normalize_rad U x =
     (case attr_normalize_rad U of
        None \<Rightarrow> Inl (AttributeError ''normalize_rad'')
      | Some f \<Rightarrow> Inr (f x))"

subsection \<open>chapters/coordinates.py: the transform library\<close>

definition horizontal_to_horary ::
  "numpy \<Rightarrow> utils_module \<Rightarrow> real \<Rightarrow> real \<Rightarrow> real \<Rightarrow> error + real \<times> real" where
  "horizontal_to_horary N U A z phi =
     (let sin_z = np_sin N z; cos_z = np_cos N z;
          sin_A = np_sin N A; cos_A = np_cos N A;
          sin_phi = np_sin N phi; cos_phi = np_cos N phi;
          sin_delta = - sin_z * cos_A * cos_phi + cos_z * sin_phi
      in case arcsin_np N (np_clip sin_delta (- 1) 1) of
           Inl e \<Rightarrow> Inl e
         | Inr delta \<Rightarrow>
             (let y = sin_z * sin_A;
                  x = sin_z * cos_A * sin_phi + cos_z * cos_phi;
                  H = np_arctan2 N y x
              in case call_normalize_rad U H of
                   Inl e \<Rightarrow> Inl e
                 | Inr H' \<Rightarrow> Inr (H', delta)))"

definition horary_to_horizontal ::
  "numpy \<Rightarrow> utils_module \<Rightarrow> real \<Rightarrow> real \<Rightarrow> real \<Rightarrow> error + real \<times> real" where
  "horary_to_horizontal N U H delta phi =
     (let sin_d = np_sin N delta; cos_d = np_cos N delta;
          sin_H = np_sin N H; cos_H = np_cos N H;
          sin_phi = np_sin N phi; cos_phi = np_cos N phi;
          cos_z = cos_d * cos_H * cos_phi + sin_d * sin_phi
      in case arccos_np N (np_clip cos_z (- 1) 1) of
           Inl e \<Rightarrow> Inl e
         | Inr z \<Rightarrow>
             (let num = cos_d * sin_H;
                  den = cos_d * cos_H * sin_phi - sin_d * cos_phi;
                  A = np_arctan2 N num den
              in case call_normalize_rad U A of
                   Inl e \<Rightarrow> Inl e
                 | Inr A' \<Rightarrow> Inr (A', z)))"

definition equatorial_to_ecliptic ::
  "numpy \<Rightarrow> utils_module \<Rightarrow> real \<Rightarrow> real \<Rightarrow> real \<Rightarrow> error + real \<times> real" where
  "equatorial_to_ecliptic N U alpha delta eps =
     (let sin_d = np_sin N delta; cos_d = np_cos N delta;
          sin_a = np_sin N alpha; cos_a = np_cos N alpha;
          sin_e = np_sin N eps; cos_e = np_cos N eps;
          sin_b = - cos_d * sin_a * sin_e + sin_d * cos_e
      in case arcsin_np N (np_clip sin_b (- 1) 1) of
           Inl e \<Rightarrow> Inl e
         | Inr beta \<Rightarrow>
             (let y = cos_d * sin_a * cos_e + sin_d * sin_e;
                  x = cos_d * cos_a;
                  lamb = np_arctan2 N y x
              in case call_normalize_rad U lamb of
                   Inl e \<Rightarrow> Inl e
                 | Inr lamb' \<Rightarrow> Inr (lamb', beta)))"

definition ecliptic_to_equatorial ::
  "numpy \<Rightarrow> utils_module \<Rightarrow> real \<Rightarrow> real \<Rightarrow> real \<Rightarrow> error + real \<times> real" where
  "ecliptic_to_equatorial N U lamb beta eps =
     (let sin_b = np_sin N beta; cos_b = np_cos N beta;
          sin_l = np_sin N lamb; cos_l = np_cos N lamb;
          sin_e = np_sin N eps; cos_e = np_cos N eps;
          sin_d = cos_b * sin_l * sin_e + sin_b * cos_e
      in case arcsin_np N (np_clip sin_d (- 1) 1) of
           Inl e \<Rightarrow> Inl e
         | Inr delta \<Rightarrow>
             (let y = cos_b * sin_l * cos_e - sin_b * sin_e;
                  x = cos_b * cos_l;
                  alpha = np_arctan2 N y x
              in case call_normalize_rad U alpha of
                   Inl e \<Rightarrow> Inl e
                 | Inr alpha' \<Rightarrow> Inr (alpha', delta)))"

definition equatorial_to_galactic ::
  "numpy \<Rightarrow> utils_module \<Rightarrow> real \<Rightarrow> real \<Rightarrow> error + real \<times> real" where
  "equatorial_to_galactic N U alpha delta =
     (let ap = radians 192.85948;
          dp = radians 27.12825;
          lnode = radians 32.93192;
          sin_d = np_sin N delta; cos_d = np_cos N delta;
          sin_dp = np_sin N dp; cos_dp = np_cos N dp;
          diff = alpha - ap;
          sin_b = sin_d * sin_dp + cos_d * cos_dp * np_cos N diff
      in case arcsin_np N (np_clip sin_b (- 1) 1) of
           Inl e \<Rightarrow> Inl e
         | Inr b \<Rightarrow>
             (let y = cos_d * np_sin N diff;
                  x = sin_d * cos_dp - cos_d * sin_dp * np_cos N diff;
                  l = lnode - np_arctan2 N y x
              in case call_normalize_rad U l of
                   Inl e \<Rightarrow> Inl e
                 | Inr l' \<Rightarrow> Inr (l', b)))"

text \<open>
  In \<^verbatim>\<open>_galactic_to_equatorial\<close> the first assignment to \<^verbatim>\<open>sin_d\<close> is overwritten by an
  identical second one before it is read, and \<^verbatim>\<open>sin_b\<close>, \<^verbatim>\<open>cos_b\<close>, \<^verbatim>\<open>sin_dp\<close>,
  \<^verbatim>\<open>cos_dp\<close>, \<^verbatim>\<open>diff_l\<close> are never read: the formulas call \<^verbatim>\<open>np.sin\<close> and \<^verbatim>\<open>np.cos\<close> again.
\<close>

definition galactic_to_equatorial ::
  "numpy \<Rightarrow> utils_module \<Rightarrow> real \<Rightarrow> real \<Rightarrow> error + real \<times> real" where
  "galactic_to_equatorial N U l b =
     (let ap = radians 192.85948;
          dp = radians 27.12825;
          lnode = radians 32.93192;
          y = np_cos N b * np_sin N (l - lnode);
          x = np_sin N b * np_cos N dp - np_cos N b * np_sin N dp * np_cos N (l - lnode);
          sin_d = np_sin N b * np_sin N dp + np_cos N b * np_cos N dp * np_cos N (l - lnode)
      in case arcsin_np N (np_clip sin_d (- 1) 1) of
           Inl e \<Rightarrow> Inl e
         | Inr delta \<Rightarrow>
             (let alpha = np_arctan2 N y x + ap
              in case call_normalize_rad U alpha of
                   Inl e \<Rightarrow> Inl e
                 | Inr alpha' \<Rightarrow> Inr (alpha', delta)))"

subsection \<open>chapters/coordinates.py: context\<close>

text \<open>
  The context is the dictionary of keyword arguments. \<^verbatim>\<open>ctx.pop(k)\<close> removes the key,
  \<^verbatim>\<open>ctx[k]\<close> raises \<^verbatim>\<open>KeyError\<close> on an absent key, \<^verbatim>\<open>ctx.get(k, d)\<close> answers \<open>d\<close> there.
\<close>

type_synonym contexto = "string \<rightharpoonup> real"

definition normalizar_contexto :: "contexto \<Rightarrow> contexto" where
  "normalizar_contexto kwargs =
     (let ctx0 = kwargs;
          ctx1 = (case ctx0 ''phi_deg'' of
                    Some v \<Rightarrow> (ctx0(''phi_deg'' := None))(''phi'' \<mapsto> radians v)
                  | None \<Rightarrow> ctx0);
          ctx2 = (case ctx1 ''TS_h'' of
                    Some v \<Rightarrow> (ctx1(''TS_h'' := None))(''TS'' \<mapsto> radians (v * 15))
                  | None \<Rightarrow>
                      (case ctx1 ''TS_deg'' of
                         Some v \<Rightarrow> (ctx1(''TS_deg'' := None))(''TS'' \<mapsto> radians v)
                       | None \<Rightarrow> ctx1));
          ctx3 = (case ctx2 ''epsilon_deg'' of
                    Some v \<Rightarrow> (ctx2(''epsilon_deg'' := None))(''epsilon'' \<mapsto> radians v)
                  | None \<Rightarrow> ctx2)
      in ctx3)"

text \<open>\<^verbatim>\<open>_validar_ctx\<close>; a single key \<^verbatim>\<open>'TS'\<close> is passed as the list \<open>[''TS'']\<close>.\<close>

fun validar_ctx :: "contexto \<Rightarrow> string list \<Rightarrow> string \<Rightarrow> error + unit" where
  "validar_ctx ctx [] sistema = Inr ()"
| "validar_ctx ctx (k # keys) sistema =
     (if ctx k = None then Inl (MissingContextParameter k sistema)
      else validar_ctx ctx keys sistema)"

definition ctx_item :: "contexto \<Rightarrow> string \<Rightarrow> error + real" where
  "ctx_item ctx k = (case ctx k of None \<Rightarrow> Inl (KeyError k) | Some v \<Rightarrow> Inr v)"

definition ctx_get :: "contexto \<Rightarrow> string \<Rightarrow> real \<Rightarrow> real" where
  "ctx_get ctx k d = (case ctx k of None \<Rightarrow> d | Some v \<Rightarrow> v)"

subsection \<open>chapters/coordinates.py: the hub router\<close>

text \<open>
  \<^verbatim>\<open>utils.normalize_rad(ctx['TS'] - x)\<close>: Python evaluates the callee first (the attribute
  lookup), then the argument (the dictionary lookup), then calls.
\<close>

definition normalize_TS_minus :: "utils_module \<Rightarrow> contexto \<Rightarrow> real \<Rightarrow> error + real" where
  "normalize_TS_minus U ctx x =
     (case attr_normalize_rad U of
        None \<Rightarrow> Inl (AttributeError ''normalize_rad'')
      | Some f \<Rightarrow>
          (case ctx_item ctx ''TS'' of
             Inl e \<Rightarrow> Inl e
           | Inr ts \<Rightarrow> Inr (f (ts - x))))"

text \<open>
  \<^verbatim>\<open>_nucleo_transformacion\<close> in its two commented steps. \<open>origen_a_hub\<close> is
  "PASO 1: Origen -> HUB": the \<^verbatim>\<open>if\<close>/\<^verbatim>\<open>elif\<close> chain has no \<^verbatim>\<open>else\<close>, so an origin that
  matches no branch leaves \<^verbatim>\<open>alpha, delta = 0.0, 0.0\<close>. \<open>hub_a_destino\<close> is
  "PASO 2: HUB -> Destino", which ends in the \<^verbatim>\<open>raise ValueError\<close>.
\<close>

definition origen_a_hub ::
  "numpy \<Rightarrow> utils_module \<Rightarrow> real \<Rightarrow> real \<Rightarrow> string \<Rightarrow> contexto \<Rightarrow> error + real \<times> real" where
  "origen_a_hub N U c1 c2 origen ctx =
     (if origen = ECUATORIAL then Inr (c1, c2)
      else if origen = HORARIO then
        (case validar_ctx ctx [''TS''] origen of
           Inl e \<Rightarrow> Inl e
         | Inr _ \<Rightarrow>
             (case normalize_TS_minus U ctx c1 of
                Inl e \<Rightarrow> Inl e
              | Inr alpha \<Rightarrow> Inr (alpha, c2)))
      else if origen = HORIZONTAL then
        (case validar_ctx ctx [''phi'', ''TS''] origen of
           Inl e \<Rightarrow> Inl e
         | Inr _ \<Rightarrow>
             (case ctx_item ctx ''phi'' of
                Inl e \<Rightarrow> Inl e
              | Inr phi \<Rightarrow>
                  (case horizontal_to_horary N U c1 c2 phi of
                     Inl e \<Rightarrow> Inl e
                   | Inr (H, delta) \<Rightarrow>
                       (case normalize_TS_minus U ctx H of
                          Inl e \<Rightarrow> Inl e
                        | Inr alpha \<Rightarrow> Inr (alpha, delta)))))
      else if origen = ECLIPTICO then
        ecliptic_to_equatorial N U c1 c2 (ctx_get ctx ''epsilon'' EPSILON_J2000)
      else if origen = GALACTICO then
        galactic_to_equatorial N U c1 c2
      else Inr (0, 0))"

definition hub_a_destino ::
  "numpy \<Rightarrow> utils_module \<Rightarrow> real \<Rightarrow> real \<Rightarrow> string \<Rightarrow> contexto \<Rightarrow> error + real \<times> real" where
  "hub_a_destino N U alpha delta destino ctx =
     (if destino = ECUATORIAL then Inr (alpha, delta)
      else if destino = HORARIO then
        (case validar_ctx ctx [''TS''] destino of
           Inl e \<Rightarrow> Inl e
         | Inr _ \<Rightarrow>
             (case normalize_TS_minus U ctx alpha of
                Inl e \<Rightarrow> Inl e
              | Inr H \<Rightarrow> Inr (H, delta)))
      else if destino = HORIZONTAL then
        (case validar_ctx ctx [''phi'', ''TS''] destino of
           Inl e \<Rightarrow> Inl e
         | Inr _ \<Rightarrow>
             (case normalize_TS_minus U ctx alpha of
                Inl e \<Rightarrow> Inl e
              | Inr H \<Rightarrow>
                  (case ctx_item ctx ''phi'' of
                     Inl e \<Rightarrow> Inl e
                   | Inr phi \<Rightarrow> horary_to_horizontal N U H delta phi)))
      else if destino = ECLIPTICO then
        equatorial_to_ecliptic N U alpha delta (ctx_get ctx ''epsilon'' EPSILON_J2000)
      else if destino = GALACTICO then
        equatorial_to_galactic N U alpha delta
      else Inl (UnsupportedSystem destino))"

definition nucleo_transformacion ::
  "numpy \<Rightarrow> utils_module \<Rightarrow> real \<Rightarrow> real \<Rightarrow> string \<Rightarrow> string \<Rightarrow> contexto
     \<Rightarrow> error + real \<times> real" where
  "nucleo_transformacion N U c1 c2 origen destino ctx =
     (if origen = destino then Inr (c1, c2)
      else
        case origen_a_hub N U c1 c2 origen ctx of
          Inl e \<Rightarrow> Inl e
        | Inr (alpha, delta) \<Rightarrow> hub_a_destino N U alpha delta destino ctx)"

subsection \<open>chapters/coordinates.py: units\<close>

text \<open>
  \<^verbatim>\<open>_input_a_rad\<close>. For \<^verbatim>\<open>'dms'\<close> and \<^verbatim>\<open>'hms'\<close> the callee (\<^verbatim>\<open>utils.to_rad\<close>,
  \<^verbatim>\<open>utils.hms_to_rad\<close>) is looked up before the value is indexed; a float there is a
  0-dimensional array, and indexing it raises \<^verbatim>\<open>IndexError\<close>. \<^verbatim>\<open>es_tiempo\<close> is never read.
\<close>

definition input_a_rad :: "utils_module \<Rightarrow> coord \<Rightarrow> string \<Rightarrow> bool \<Rightarrow> error + real" where
  "input_a_rad U val unidad es_tiempo =
     (if unidad = RAD then
        (case val of Num x \<Rightarrow> Inr x | Sexa g m s \<Rightarrow> Inl BatchValue)
      else if unidad = DEG then
        (case val of Num x \<Rightarrow> Inr (radians x) | Sexa g m s \<Rightarrow> Inl BatchValue)
      else if unidad = HOUR then
        (case val of Num x \<Rightarrow> Inr (radians (x * 15)) | Sexa g m s \<Rightarrow> Inl BatchValue)
      else if unidad = DMS then
        (case attr_to_rad U of
           None \<Rightarrow> Inl (AttributeError ''to_rad'')
         | Some f \<Rightarrow> (case val of Sexa g m s \<Rightarrow> Inr (f g m s) | Num x \<Rightarrow> Inl IndexError))
      else if unidad = HMS then
        (case attr_hms_to_rad U of
           None \<Rightarrow> Inl (AttributeError ''hms_to_rad'')
         | Some f \<Rightarrow> (case val of Sexa h m s \<Rightarrow> Inr (f h m s) | Num x \<Rightarrow> Inl IndexError))
      else Inl (InvalidUnit ''entrada'' unidad))"

definition rad_a_output :: "utils_module \<Rightarrow> real \<Rightarrow> string \<Rightarrow> bool \<Rightarrow> error + coord" where
  "rad_a_output U val_rad unidad es_tiempo =
     (if unidad = RAD then Inr (Num val_rad)
      else if unidad = DEG then Inr (Num (degrees val_rad))
      else if unidad = HOUR then Inr (Num (py_mod (degrees val_rad / 15) 24))
      else if unidad = DMS then
        (case attr_rad_to_dms U of
           None \<Rightarrow> Inl (AttributeError ''rad_to_dms'')
         | Some f \<Rightarrow> Inr (f val_rad))
      else if unidad = HMS then
        (case attr_rad_to_hms U of
           None \<Rightarrow> Inl (AttributeError ''rad_to_hms'')
         | Some f \<Rightarrow> Inr (f val_rad))
      else Inl (InvalidUnit ''salida'' unidad))"

text \<open>
  A coordinate has the shape its unit expects: a float under a unit other than \<^verbatim>\<open>'dms'\<close>
  and \<^verbatim>\<open>'hms'\<close>, a triplet under a unit other than \<^verbatim>\<open>'rad'\<close>, \<^verbatim>\<open>'deg'\<close> and \<^verbatim>\<open>'hour'\<close>
  (under an unrecognized unit the value is never looked at).
\<close>

fun forma_valida :: "coord \<Rightarrow> string \<Rightarrow> bool" where
  "forma_valida (Num x) unidad = (unidad \<noteq> DMS \<and> unidad \<noteq> HMS)"
| "forma_valida (Sexa g m s) unidad = (unidad \<noteq> RAD \<and> unidad \<noteq> DEG \<and> unidad \<noteq> HOUR)"

subsection \<open>chapters/coordinates.py: the public entry point\<close>

definition transformar ::
  "numpy \<Rightarrow> utils_module \<Rightarrow> coord \<Rightarrow> coord \<Rightarrow> string \<Rightarrow> string \<Rightarrow> string \<Rightarrow> string
     \<Rightarrow> contexto \<Rightarrow> error + coord \<times> coord" where
  "transformar N U c1 c2 origen destino unidad_in unidad_out kwargs =
     (let ctx = normalizar_contexto kwargs
      in case input_a_rad U c1 unidad_in (origen \<in> {HORARIO, ECUATORIAL}) of
           Inl e \<Rightarrow> Inl e
         | Inr val1_rad \<Rightarrow>
        (case input_a_rad U c2 unidad_in False of
           Inl e \<Rightarrow> Inl e
         | Inr val2_rad0 \<Rightarrow>
        (let val2_rad = (if origen = HORIZONTAL then pi / 2 - val2_rad0 else val2_rad0)
         in case nucleo_transformacion N U val1_rad val2_rad origen destino ctx of
           Inl e \<Rightarrow> Inl e
         | Inr (out1_rad, out2_rad0) \<Rightarrow>
        (let out2_rad = (if destino = HORIZONTAL then pi / 2 - out2_rad0 else out2_rad0);
             es_tiempo_salida = (destino \<in> {HORARIO, ECUATORIAL})
         in case rad_a_output U out1_rad unidad_out es_tiempo_salida of
           Inl e \<Rightarrow> Inl e
         | Inr res1 \<Rightarrow>
        (case rad_a_output U out2_rad unidad_out False of
           Inl e \<Rightarrow> Inl e
         | Inr res2 \<Rightarrow> Inr (res1, res2))))))"

subsection \<open>Errors of one leg of the pivot\<close>

text \<open>
  The errors a leg of the hub router through system \<open>sistema\<close> can end in: the missing
  attribute, or a context key that \<open>sistema\<close> needs and \<open>ctx\<close> lacks.
\<close>

definition leg_error :: "string \<Rightarrow> contexto \<Rightarrow> error \<Rightarrow> bool" where
  "leg_error sistema ctx e \<longleftrightarrow>
     e = AttributeError ''normalize_rad''
     \<or> (sistema = HORARIO \<and> ctx ''TS'' = None \<and> e = MissingContextParameter ''TS'' HORARIO)
     \<or> (sistema = HORIZONTAL \<and> ctx ''phi'' = None
          \<and> e = MissingContextParameter ''phi'' HORIZONTAL)
     \<or> (sistema = HORIZONTAL \<and> ctx ''TS'' = None
          \<and> e = MissingContextParameter ''TS'' HORIZONTAL)"

subsection \<open>Decomposition as the specification words it\<close>

text \<open>
  The specification says of both sexagesimal decompositions that they first normalize
  the angle into \<open>[0, 2 pi)\<close>. This is \<^verbatim>\<open>to_dms\<close> with that first step added, the
  remainder taken exactly, to compare with \<open>to_dms\<close> from the source.
\<close>

definition to_dms_normalized :: "real \<Rightarrow> int \<times> int \<times> real" where
  "to_dms_normalized rad = to_dms (py_mod rad (2 * pi))"

subsection \<open>Instances used in examples\<close>

text \<open>
  A sine that is rounded up by \<open>2 ^ (-53)\<close>, so that a combination of sines and cosines can
  exceed 1; and a \<^verbatim>\<open>%\<close> that rounds an exact remainder less than \<open>10 ^ (-16)\<close> below the
  divisor up to the divisor, as double arithmetic does for the divisor \<^verbatim>\<open>2 * np.pi\<close>.
\<close>

definition numpy_rounding_up :: numpy where
  "numpy_rounding_up = numpy_exact\<lparr>np_sin := \<lambda>x. sin x + 1 / 2 ^ 53\<rparr>"

definition mod_rounding_up :: "real \<Rightarrow> real \<Rightarrow> real" where
  "mod_rounding_up x y = (if y - py_mod x y < 1 / 10 ^ 16 then y else py_mod x y)"

section \<open>Basic facts\<close>

lemmas Sistema_defs = HORIZONTAL_def HORARIO_def ECUATORIAL_def ECLIPTICO_def GALACTICO_def
lemmas Unidad_defs = RAD_def DEG_def HOUR_def DMS_def HMS_def



lemma np_clip_range: "- 1 \<le> np_clip x (- 1) 1 \<and> np_clip x (- 1) 1 \<le> 1"
  by (simp add: np_clip_def)

lemma arcsin_np_clip: "arcsin_np N (np_clip x (- 1) 1) = Inr (np_arcsin N (np_clip x (- 1) 1))"
  using np_clip_range [of x] by (simp add: arcsin_np_def)

lemma arccos_np_clip: "arccos_np N (np_clip x (- 1) 1) = Inr (np_arccos N (np_clip x (- 1) 1))"
  using np_clip_range [of x] by (simp add: arccos_np_def)

lemma call_normalize_rad_None:
  "attr_normalize_rad U = None \<Longrightarrow> call_normalize_rad U x = Inl (AttributeError ''normalize_rad'')"
  by (simp add: call_normalize_rad_def)

lemma horizontal_to_horary_None:
  "attr_normalize_rad U = None \<Longrightarrow>
   horizontal_to_horary N U A z phi = Inl (AttributeError ''normalize_rad'')"
  by (simp add: horizontal_to_horary_def Let_def arcsin_np_clip call_normalize_rad_None)

lemma horary_to_horizontal_None:
  "attr_normalize_rad U = None \<Longrightarrow>
   horary_to_horizontal N U H delta phi = Inl (AttributeError ''normalize_rad'')"
  by (simp add: horary_to_horizontal_def Let_def arccos_np_clip call_normalize_rad_None)

lemma equatorial_to_ecliptic_None:
  "attr_normalize_rad U = None \<Longrightarrow>
   equatorial_to_ecliptic N U alpha delta eps = Inl (AttributeError ''normalize_rad'')"
  by (simp add: equatorial_to_ecliptic_def Let_def arcsin_np_clip call_normalize_rad_None)

lemma ecliptic_to_equatorial_None:
  "attr_normalize_rad U = None \<Longrightarrow>
   ecliptic_to_equatorial N U lamb beta eps = Inl (AttributeError ''normalize_rad'')"
  by (simp add: ecliptic_to_equatorial_def Let_def arcsin_np_clip call_normalize_rad_None)

lemma equatorial_to_galactic_None:
  "attr_normalize_rad U = None \<Longrightarrow>
   equatorial_to_galactic N U alpha delta = Inl (AttributeError ''normalize_rad'')"
  by (simp add: equatorial_to_galactic_def Let_def arcsin_np_clip call_normalize_rad_None)

lemma galactic_to_equatorial_None:
  "attr_normalize_rad U = None \<Longrightarrow>
   galactic_to_equatorial N U l b = Inl (AttributeError ''normalize_rad'')"
  by (simp add: galactic_to_equatorial_def Let_def arcsin_np_clip call_normalize_rad_None)

lemma normalize_TS_minus_None:
  "attr_normalize_rad U = None \<Longrightarrow> normalize_TS_minus U ctx x = Inl (AttributeError ''normalize_rad'')"
  by (simp add: normalize_TS_minus_def)

lemmas library_None = horizontal_to_horary_None horary_to_horizontal_None
  equatorial_to_ecliptic_None ecliptic_to_equatorial_None equatorial_to_galactic_None
  galactic_to_equatorial_None normalize_TS_minus_None

lemma utils_py_normalize_rad: "attr_normalize_rad utils_py = None"
  by (simp add: utils_py_def)

lemma Sistema_distinct:
  "HORIZONTAL \<noteq> HORARIO" "HORIZONTAL \<noteq> ECUATORIAL" "HORIZONTAL \<noteq> ECLIPTICO" "HORIZONTAL \<noteq> GALACTICO"
  "HORARIO \<noteq> HORIZONTAL" "HORARIO \<noteq> ECUATORIAL" "HORARIO \<noteq> ECLIPTICO" "HORARIO \<noteq> GALACTICO"
  "ECUATORIAL \<noteq> HORIZONTAL" "ECUATORIAL \<noteq> HORARIO" "ECUATORIAL \<noteq> ECLIPTICO" "ECUATORIAL \<noteq> GALACTICO"
  "ECLIPTICO \<noteq> HORIZONTAL" "ECLIPTICO \<noteq> HORARIO" "ECLIPTICO \<noteq> ECUATORIAL" "ECLIPTICO \<noteq> GALACTICO"
  "GALACTICO \<noteq> HORIZONTAL" "GALACTICO \<noteq> HORARIO" "GALACTICO \<noteq> ECUATORIAL" "GALACTICO \<noteq> ECLIPTICO"
  by (simp_all add: Sistema_defs)

lemma nucleo_None:
  assumes U: "attr_normalize_rad U = None"
    and o: "origen \<in> set sistemas" and d: "destino \<in> set sistemas"
    and ne: "origen \<noteq> destino"
    and ts: "origen = HORARIO \<or> destino = HORARIO \<or> origen = HORIZONTAL \<or> destino = HORIZONTAL
             \<Longrightarrow> ctx ''TS'' \<noteq> None"
    and phi: "origen = HORIZONTAL \<or> destino = HORIZONTAL \<Longrightarrow> ctx ''phi'' \<noteq> None"
  shows "nucleo_transformacion N U c1 c2 origen destino ctx = Inl (AttributeError ''normalize_rad'')"
proof -
  from o have oc: "origen = HORIZONTAL \<or> origen = HORARIO \<or> origen = ECUATORIAL \<or> origen = ECLIPTICO \<or> origen = GALACTICO"
    by (simp add: sistemas_def)
  from d have dc: "destino = HORIZONTAL \<or> destino = HORARIO \<or> destino = ECUATORIAL \<or> destino = ECLIPTICO \<or> destino = GALACTICO"
    by (simp add: sistemas_def)
  note L = library_None [OF U]
  show ?thesis
    using oc dc ne ts phi
    apply (elim disjE)
    apply (simp_all add: nucleo_transformacion_def origen_a_hub_def hub_a_destino_def
        Sistema_distinct L ctx_item_def split: option.splits)
    done
qed


lemma py_mod_range:
  assumes "0 < y"
  shows "0 \<le> py_mod x y \<and> py_mod x y < y"
proof -
  have e: "y * (x / y) = x" using assms by simp
  have b: "x / y < of_int \<lfloor>x / y\<rfloor> + 1" by linarith
  have "y * of_int \<lfloor>x / y\<rfloor> \<le> y * (x / y)"
    using assms by (intro mult_left_mono of_int_floor_le) simp
  moreover have "y * (x / y) < y * (of_int \<lfloor>x / y\<rfloor> + 1)"
    using assms b by (intro mult_strict_left_mono)
  ultimately show ?thesis
    unfolding e by (simp add: py_mod_def algebra_simps)
qed

lemma normalize_pi_range: "- pi \<le> normalize_pi a \<and> normalize_pi a < pi"
  using py_mod_range [of "2 * pi" "a + pi"] by (simp add: normalize_pi_def)

lemma call_normalize_rad_err:
  "call_normalize_rad U x = Inl e \<Longrightarrow> e = AttributeError ''normalize_rad''"
  by (auto simp: call_normalize_rad_def split: option.splits)

lemma horizontal_to_horary_err:
  "horizontal_to_horary N U A z phi = Inl e \<Longrightarrow> e = AttributeError ''normalize_rad''"
  by (auto simp: horizontal_to_horary_def Let_def arcsin_np_clip split: sum.splits
      dest: call_normalize_rad_err)

lemma horary_to_horizontal_err:
  "horary_to_horizontal N U H delta phi = Inl e \<Longrightarrow> e = AttributeError ''normalize_rad''"
  by (auto simp: horary_to_horizontal_def Let_def arccos_np_clip split: sum.splits
      dest: call_normalize_rad_err)

lemma equatorial_to_ecliptic_err:
  "equatorial_to_ecliptic N U alpha delta eps = Inl e \<Longrightarrow> e = AttributeError ''normalize_rad''"
  by (auto simp: equatorial_to_ecliptic_def Let_def arcsin_np_clip split: sum.splits
      dest: call_normalize_rad_err)

lemma ecliptic_to_equatorial_err:
  "ecliptic_to_equatorial N U lamb beta eps = Inl e \<Longrightarrow> e = AttributeError ''normalize_rad''"
  by (auto simp: ecliptic_to_equatorial_def Let_def arcsin_np_clip split: sum.splits
      dest: call_normalize_rad_err)

lemma equatorial_to_galactic_err:
  "equatorial_to_galactic N U alpha delta = Inl e \<Longrightarrow> e = AttributeError ''normalize_rad''"
  by (auto simp: equatorial_to_galactic_def Let_def arcsin_np_clip split: sum.splits
      dest: call_normalize_rad_err)

lemma galactic_to_equatorial_err:
  "galactic_to_equatorial N U l b = Inl e \<Longrightarrow> e = AttributeError ''normalize_rad''"
  by (auto simp: galactic_to_equatorial_def Let_def arcsin_np_clip split: sum.splits
      dest: call_normalize_rad_err)

lemmas library_err = horizontal_to_horary_err horary_to_horizontal_err
  equatorial_to_ecliptic_err ecliptic_to_equatorial_err equatorial_to_galactic_err
  galactic_to_equatorial_err

lemma normalize_TS_minus_err:
  "normalize_TS_minus U ctx x = Inl e \<Longrightarrow> ctx ''TS'' = Some ts \<Longrightarrow>
   e = AttributeError ''normalize_rad''"
  by (auto simp: normalize_TS_minus_def ctx_item_def split: option.splits)

lemma validar_ctx_TS:
  "validar_ctx ctx [''TS''] s =
     (if ctx ''TS'' = None then Inl (MissingContextParameter ''TS'' s) else Inr ())"
  by simp

lemma validar_ctx_phi_TS:
  "validar_ctx ctx [''phi'', ''TS''] s =
     (if ctx ''phi'' = None then Inl (MissingContextParameter ''phi'' s)
      else if ctx ''TS'' = None then Inl (MissingContextParameter ''TS'' s) else Inr ())"
  by simp

lemma origen_a_hub_err:
  assumes "origen_a_hub N U c1 c2 origen ctx = Inl e"
  shows "leg_error origen ctx e"
proof -
  consider "origen = ECUATORIAL" | "origen = HORARIO" | "origen = HORIZONTAL"
    | "origen = ECLIPTICO" | "origen = GALACTICO"
    | "origen \<notin> {ECUATORIAL, HORARIO, HORIZONTAL, ECLIPTICO, GALACTICO}"
    by blast
  then show ?thesis
  proof cases
    case 1 with assms show ?thesis by (simp add: origen_a_hub_def)
  next
    case 2 with assms show ?thesis
      by (auto simp: origen_a_hub_def Sistema_distinct leg_error_def
          split: if_splits sum.splits dest: normalize_TS_minus_err)
  next
    case 3 with assms show ?thesis
      by (auto simp: origen_a_hub_def Sistema_distinct leg_error_def ctx_item_def
          split: if_splits sum.splits option.splits
          dest: normalize_TS_minus_err horizontal_to_horary_err)
  next
    case 4 with assms show ?thesis
      by (auto simp: origen_a_hub_def Sistema_distinct leg_error_def
          dest: ecliptic_to_equatorial_err)
  next
    case 5 with assms show ?thesis
      by (auto simp: origen_a_hub_def Sistema_distinct leg_error_def
          dest: galactic_to_equatorial_err)
  next
    case 6 with assms show ?thesis by (simp add: origen_a_hub_def)
  qed
qed

lemma hub_a_destino_err:
  assumes "hub_a_destino N U alpha delta destino ctx = Inl e"
  shows "leg_error destino ctx e \<or> (destino \<notin> set sistemas \<and> e = UnsupportedSystem destino)"
proof -
  consider "destino = ECUATORIAL" | "destino = HORARIO" | "destino = HORIZONTAL"
    | "destino = ECLIPTICO" | "destino = GALACTICO"
    | "destino \<notin> {ECUATORIAL, HORARIO, HORIZONTAL, ECLIPTICO, GALACTICO}"
    by blast
  then show ?thesis
  proof cases
    case 1 with assms show ?thesis by (simp add: hub_a_destino_def)
  next
    case 2 with assms show ?thesis
      by (auto simp: hub_a_destino_def Sistema_distinct leg_error_def
          split: if_splits sum.splits dest: normalize_TS_minus_err)
  next
    case 3 with assms show ?thesis
      by (auto simp: hub_a_destino_def Sistema_distinct leg_error_def ctx_item_def
          split: if_splits sum.splits option.splits
          dest: normalize_TS_minus_err horary_to_horizontal_err)
  next
    case 4 with assms show ?thesis
      by (auto simp: hub_a_destino_def Sistema_distinct leg_error_def
          dest: equatorial_to_ecliptic_err)
  next
    case 5 with assms show ?thesis
      by (auto simp: hub_a_destino_def Sistema_distinct leg_error_def
          dest: equatorial_to_galactic_err)
  next
    case 6 with assms show ?thesis by (auto simp: hub_a_destino_def sistemas_def)
  qed
qed

lemma nucleo_err:
  assumes "nucleo_transformacion N U c1 c2 origen destino ctx = Inl e"
  shows "leg_error origen ctx e \<or> leg_error destino ctx e
         \<or> (destino \<notin> set sistemas \<and> e = UnsupportedSystem destino)"
  using assms
  by (auto simp: nucleo_transformacion_def split: if_splits sum.splits
      dest: origen_a_hub_err hub_a_destino_err)

lemma leg_error_missing:
  "leg_error sis ctx (MissingContextParameter k s) \<Longrightarrow>
   ctx k = None \<and> s = sis \<and> (k = ''phi'' \<and> s = HORIZONTAL \<or> k = ''TS'' \<and> (s = HORARIO \<or> s = HORIZONTAL))"
  by (auto simp: leg_error_def)

lemma nucleo_horario_no_TS:
  "ctx ''TS'' = None \<Longrightarrow> HORARIO \<noteq> destino \<Longrightarrow>
   nucleo_transformacion N U c1 c2 HORARIO destino ctx
     = Inl (MissingContextParameter ''TS'' HORARIO)"
  by (simp add: nucleo_transformacion_def origen_a_hub_def Sistema_distinct)


lemma normalize_pi_three_half: "normalize_pi (3 * pi / 2) = - (pi / 2)"
proof -
  have "(3 * pi / 2 + pi) / (2 * pi) = 5 / 4" by (simp add: field_simps)
  then show ?thesis by (simp add: normalize_pi_def py_mod_def)
qed

lemma utils_py_to_rad: "attr_to_rad utils_py = Some (\<lambda>d m s. to_rad d m s 1)"
  by (simp add: utils_py_def)

lemma to_rad_zero: "to_rad 0 m s 1 = radians (m / 60 + s / 3600)"
  by (simp add: to_rad_def)

lemma input_a_rad_DMS:
  "input_a_rad utils_py (Sexa g m s) DMS b = Inr (to_rad g m s 1)"
  by (simp add: input_a_rad_def Unidad_defs utils_py_to_rad)


lemma py_int_nonneg: "0 \<le> x \<Longrightarrow> py_int x = \<lfloor>x\<rfloor>"
  by (simp add: py_int_def)

text \<open>The sexagesimal split of a non-negative number, as both decompositions do it.\<close>

lemma sexa_split:
  fixes x :: real
  assumes x: "0 \<le> x"
    and d: "d = py_int x"
    and m: "m = py_int ((x - of_int d) * 60)"
    and s: "s = ((x - of_int d) * 60 - of_int m) * 60"
  shows "0 \<le> d \<and> of_int d \<le> x \<and> 0 \<le> m \<and> m < 60 \<and> 0 \<le> s \<and> s < 60
         \<and> of_int d + of_int m / 60 + s / 3600 = x"
proof -
  define rem where "rem = (x - of_int d) * 60"
  have df: "d = \<lfloor>x\<rfloor>" using x d by (simp only: py_int_nonneg)
  have d0: "0 \<le> d" unfolding df using x by simp
  have dx: "of_int d \<le> x" unfolding df by (rule of_int_floor_le)
  have r0: "0 \<le> rem" using dx by (simp add: rem_def)
  have "x - of_int d < 1" unfolding df by linarith
  then have r1: "rem < 60" by (simp add: rem_def)
  have mf: "m = \<lfloor>rem\<rfloor>" using r0 m by (simp only: rem_def py_int_nonneg)
  have m0: "0 \<le> m" unfolding mf using r0 by simp
  have m1: "m < 60" unfolding mf using r1 by (simp add: floor_less_iff)
  have mr: "of_int m \<le> rem" unfolding mf by (rule of_int_floor_le)
  have sr: "s = (rem - of_int m) * 60" using s by (simp only: rem_def)
  have s0: "0 \<le> s" using mr by (simp add: sr)
  have "rem - of_int m < 1" unfolding mf by linarith
  then have s1: "s < 60" by (simp add: sr)
  have e: "of_int d + of_int m / 60 + s / 3600 = x"
    by (simp add: sr rem_def field_simps)
  from d0 dx m0 m1 s0 s1 e show ?thesis by blast
qed

lemma degrees_hours_range:
  assumes "0 \<le> r" and "r \<le> 2 * pi"
  shows "0 \<le> degrees r / 15 \<and> degrees r / 15 \<le> 24"
proof -
  have e: "degrees y / 15 = 12 * y / pi" for y by (simp add: degrees_def)
  from assms show ?thesis unfolding e by (simp add: field_simps)
qed

lemma to_hms_props:
  assumes r: "0 \<le> fmod rad (2 * pi)" "fmod rad (2 * pi) \<le> 2 * pi"
    and t: "to_hms fmod rad = (h, m, s)"
  shows "0 \<le> h \<and> h \<le> 24 \<and> 0 \<le> m \<and> m < 60 \<and> 0 \<le> s \<and> s < 60
         \<and> of_int h + of_int m / 60 + s / 3600 = degrees (fmod rad (2 * pi)) / 15"
proof -
  define x where "x = degrees (fmod rad (2 * pi)) / 15"
  have x0: "0 \<le> x" and x24: "x \<le> 24"
    using degrees_hours_range [OF r] by (simp_all add: x_def)
  have h: "h = py_int x" and m: "m = py_int ((x - of_int h) * 60)"
    and s: "s = ((x - of_int h) * 60 - of_int m) * 60"
    using t by (auto simp only: to_hms_def Let_def x_def prod.inject)
  note S = sexa_split [OF x0 h m s]
  have "of_int h \<le> (24::real)" using S x24 by linarith
  then have "h \<le> 24" by linarith
  with S show ?thesis unfolding x_def [symmetric] by blast
qed

lemma to_dms_props:
  assumes "to_dms rad = (d, m, s)"
  shows "0 \<le> m \<and> m < 60 \<and> 0 \<le> s \<and> s < 60
         \<and> of_int \<bar>d\<bar> + of_int m / 60 + s / 3600 = \<bar>degrees rad\<bar>
         \<and> (0 \<le> rad \<longrightarrow> 0 \<le> d) \<and> (rad < 0 \<longrightarrow> d \<le> 0)"
proof -
  define x where "x = \<bar>degrees rad\<bar>"
  define d' where "d' = py_int x"
  have x0: "0 \<le> x" by (simp add: x_def)
  have d: "d = (if degrees rad \<ge> 0 then 1 else - 1) * d'"
    and m: "m = py_int ((x - of_int d') * 60)"
    and s: "s = ((x - of_int d') * 60 - of_int m) * 60"
    using assms by (auto simp only: to_dms_def Let_def x_def d'_def prod.inject)
  note S = sexa_split [OF x0 d'_def m s]
  have np: "\<not> pi \<le> 0" by (simp add: not_le)
  have sg: "0 \<le> degrees rad \<longleftrightarrow> 0 \<le> rad"
    by (simp add: degrees_def zero_le_divide_iff zero_le_mult_iff np)
  have ad: "\<bar>d\<bar> = d'" using S d by (simp split: if_splits)
  have "(0 \<le> rad \<longrightarrow> 0 \<le> d) \<and> (rad < 0 \<longrightarrow> d \<le> 0)"
    using S d sg by (auto split: if_splits)
  with S ad show ?thesis unfolding x_def [symmetric] by simp
qed


lemma py_mod_minus_half_pi: "py_mod (- (pi / 2)) (2 * pi) = 3 * pi / 2"
proof -
  have "- (pi / 2) / (2 * pi) = - (1 / 4)" by (simp add: field_simps)
  then show ?thesis by (simp add: py_mod_def)
qed

lemma to_dms_minus_half_pi: "to_dms (- (pi / 2)) = (- 90, 0, 0)"
  by (simp add: to_dms_def degrees_def py_int_def)

lemma to_dms_three_half_pi: "to_dms (3 * pi / 2) = (270, 0, 0)"
  by (simp add: to_dms_def degrees_def py_int_def)

lemma to_hms_minus_half_pi: "to_hms py_mod (- (pi / 2)) = (18, 0, 0)"
  by (simp add: to_hms_def py_mod_minus_half_pi degrees_def py_int_def)

lemma py_mod_tiny_negative: "py_mod (- (1 / 10 ^ 20)) (2 * pi) = 2 * pi - 1 / 10 ^ 20"
proof -
  have p: "2 \<le> pi" by (rule pi_ge_two)
  have "\<lfloor>- (1 / 10 ^ 20) / (2 * pi)\<rfloor> = - 1"
  proof (rule floor_unique)
    show "of_int (- 1) \<le> - (1 / 10 ^ 20) / (2 * pi)"
      using p by (simp add: field_simps)
    show "- (1 / 10 ^ 20) / (2 * pi) < of_int (- 1) + 1"
      by simp
  qed
  then show ?thesis by (simp add: py_mod_def)
qed

lemma mod_rounding_up_tiny_negative: "mod_rounding_up (- (1 / 10 ^ 20)) (2 * pi) = 2 * pi"
  unfolding mod_rounding_up_def py_mod_tiny_negative by simp

lemma degrees_two_pi: "degrees (2 * pi) / 15 = 24"
  by (simp add: degrees_def)

lemma to_hms_tiny_negative: "to_hms mod_rounding_up (- (1 / 10 ^ 20)) = (24, 0, 0)"
  unfolding to_hms_def Let_def mod_rounding_up_tiny_negative degrees_two_pi
  by (simp add: py_int_def)

lemma numpy_rounding_up_simps:
  "np_sin numpy_rounding_up = (\<lambda>x. sin x + 1 / 2 ^ 53)" "np_cos numpy_rounding_up = cos"
  "np_arcsin numpy_rounding_up = arcsin"
  by (simp_all add: numpy_rounding_up_def numpy_exact_def)

lemma input_a_rad_es_tiempo: "input_a_rad U val unidad b = input_a_rad U val unidad b'"
  by (simp add: input_a_rad_def)

lemma rad_a_output_es_tiempo: "rad_a_output U x unidad b = rad_a_output U x unidad b'"
  by (simp add: rad_a_output_def)

lemma nucleo_same_system: "nucleo_transformacion N U c1 c2 S S ctx = Inr (c1, c2)"
  by (simp add: nucleo_transformacion_def)

lemma transformar_same_system:
  assumes "input_a_rad U c1 unidad_in True = Inr x1"
    and "input_a_rad U c2 unidad_in False = Inr x2"
  shows "transformar N U c1 c2 S S unidad_in unidad_out kwargs =
           (case rad_a_output U x1 unidad_out (S \<in> {HORARIO, ECUATORIAL}) of
              Inl e \<Rightarrow> Inl e
            | Inr res1 \<Rightarrow>
                (case rad_a_output U x2 unidad_out False of
                   Inl e \<Rightarrow> Inl e
                 | Inr res2 \<Rightarrow> Inr (res1, res2)))"
proof -
  have 1: "input_a_rad U c1 unidad_in b = Inr x1" for b
    unfolding input_a_rad_es_tiempo [of U c1 unidad_in b True] by (rule assms(1))
  have c: "pi / 2 - (pi / 2 - x2) = x2" by simp
  show ?thesis
  proof (cases "S = HORIZONTAL")
    case True
    show ?thesis
      unfolding transformar_def Let_def 1 assms(2) nucleo_same_system
      by (simp add: True c cong: sum.case_cong)
  next
    case False
    show ?thesis
      unfolding transformar_def Let_def 1 assms(2) nucleo_same_system
      by (simp add: False cong: sum.case_cong)
  qed
qed

lemma utils_py_attrs:
  "attr_hms_to_rad utils_py = None" "attr_rad_to_dms utils_py = None"
  "attr_rad_to_hms utils_py = None"
  by (simp_all add: utils_py_def)

lemma Unidad_distinct:
  "RAD \<noteq> DEG" "RAD \<noteq> HOUR" "RAD \<noteq> DMS" "RAD \<noteq> HMS"
  "DEG \<noteq> RAD" "DEG \<noteq> HOUR" "DEG \<noteq> DMS" "DEG \<noteq> HMS"
  "HOUR \<noteq> RAD" "HOUR \<noteq> DEG" "HOUR \<noteq> DMS" "HOUR \<noteq> HMS"
  "DMS \<noteq> RAD" "DMS \<noteq> DEG" "DMS \<noteq> HOUR" "DMS \<noteq> HMS"
  "HMS \<noteq> RAD" "HMS \<noteq> DEG" "HMS \<noteq> HOUR" "HMS \<noteq> DMS"
  by (simp_all add: Unidad_defs)


lemma input_a_rad_unknown:
  "unidad \<notin> set unidades \<Longrightarrow> input_a_rad U val unidad b = Inl (InvalidUnit ''entrada'' unidad)"
  by (simp add: input_a_rad_def unidades_def)

lemma rad_a_output_err:
  "rad_a_output U x unidad b = Inl e \<Longrightarrow>
   e = InvalidUnit ''salida'' unidad \<or> e = AttributeError ''rad_to_dms''
   \<or> e = AttributeError ''rad_to_hms''"
  by (auto simp: rad_a_output_def split: if_splits option.splits)

lemma leg_error_kind: "leg_error s ctx e \<Longrightarrow> taxonomy e \<or> attribute_error e"
  by (auto simp: leg_error_def)

lemma transformar_router_error:
  assumes "input_a_rad U v1 unidad_in True = Inr x1"
    and "input_a_rad U v2 unidad_in False = Inr x2"
    and "nucleo_transformacion N U x1 (if origen = HORIZONTAL then pi / 2 - x2 else x2)
           origen destino (normalizar_contexto kwargs) = Inl e"
  shows "transformar N U v1 v2 origen destino unidad_in unidad_out kwargs = Inl e"
proof -
  have 1: "input_a_rad U v1 unidad_in b = Inr x1" for b
    unfolding input_a_rad_es_tiempo [of U v1 unidad_in b True] by (rule assms(1))
  show ?thesis
    unfolding transformar_def Let_def 1 assms(2) using assms(3) by simp
qed

lemma transformar_unknown_input_unit:
  "unidad_in \<notin> set unidades \<Longrightarrow>
   transformar N U v1 v2 origen destino unidad_in unidad_out kwargs
     = Inl (InvalidUnit ''entrada'' unidad_in)"
  by (simp add: transformar_def input_a_rad_unknown)

lemma ctx_epsilon_upd:
  "validar_ctx (ctx(''epsilon'' \<mapsto> v)) [''TS''] s = validar_ctx ctx [''TS''] s"
  "validar_ctx (ctx(''epsilon'' \<mapsto> v)) [''phi'', ''TS''] s = validar_ctx ctx [''phi'', ''TS''] s"
  "ctx_item (ctx(''epsilon'' \<mapsto> v)) ''phi'' = ctx_item ctx ''phi''"
  by (simp_all add: ctx_item_def)

lemma normalize_TS_minus_epsilon_upd:
  "normalize_TS_minus U (ctx(''epsilon'' \<mapsto> v)) x = normalize_TS_minus U ctx x"
  by (cases "attr_normalize_rad U") (simp_all add: normalize_TS_minus_def ctx_item_def)

lemma ctx_get_epsilon_default:
  "ctx ''epsilon'' = None \<Longrightarrow>
   ctx_get (ctx(''epsilon'' \<mapsto> EPSILON_J2000)) ''epsilon'' EPSILON_J2000
     = ctx_get ctx ''epsilon'' EPSILON_J2000"
  by (simp add: ctx_get_def)

lemma nucleo_epsilon_default:
  assumes "ctx ''epsilon'' = None"
  shows "nucleo_transformacion N U c1 c2 origen destino (ctx(''epsilon'' \<mapsto> EPSILON_J2000))
         = nucleo_transformacion N U c1 c2 origen destino ctx"
  unfolding nucleo_transformacion_def origen_a_hub_def hub_a_destino_def ctx_epsilon_upd
    normalize_TS_minus_epsilon_upd ctx_get_epsilon_default [of ctx, OF assms]
  by (rule refl)

lemma input_a_rad_err:
  "forma_valida val unidad \<Longrightarrow> input_a_rad U val unidad b = Inl e \<Longrightarrow>
   taxonomy e \<or> attribute_error e"
  by (cases val) (auto simp: input_a_rad_def split: if_splits option.splits)

lemma transformar_err_general:
  assumes t: "transformar N U v1 v2 origen destino unidad_in unidad_out kwargs = Inl e"
    and f: "forma_valida v1 unidad_in" "forma_valida v2 unidad_in"
  shows "taxonomy e \<or> attribute_error e"
proof (cases "input_a_rad U v1 unidad_in (origen \<in> {HORARIO, ECUATORIAL})")
  case (Inl e1)
  with t have "e = e1" by (simp add: transformar_def)
  with Inl f show ?thesis by (auto dest: input_a_rad_err)
next
  case i1: (Inr x1)
  show ?thesis
  proof (cases "input_a_rad U v2 unidad_in False")
    case (Inl e2)
    with t i1 have "e = e2" by (simp add: transformar_def)
    with Inl f show ?thesis by (auto dest: input_a_rad_err)
  next
    case i2: (Inr x2)
    define y2 where "y2 = (if origen = HORIZONTAL then pi / 2 - x2 else x2)"
    show ?thesis
    proof (cases "nucleo_transformacion N U x1 y2 origen destino (normalizar_contexto kwargs)")
      case (Inl en)
      with t i1 i2 have "e = en" by (simp add: transformar_def y2_def)
      with nucleo_err [OF Inl] show ?thesis by (auto dest: leg_error_kind)
    next
      case (Inr out)
      obtain o1 o2 where out: "out = (o1, o2)" by (cases out)
      define z2 where "z2 = (if destino = HORIZONTAL then pi / 2 - o2 else o2)"
      from t i1 i2 Inr out
      have "rad_a_output U o1 unidad_out (destino \<in> {HORARIO, ECUATORIAL}) = Inl e
            \<or> rad_a_output U z2 unidad_out False = Inl e"
        by (auto simp: transformar_def y2_def z2_def Let_def split: sum.splits)
      then show ?thesis by (auto dest!: rad_a_output_err)
    qed
  qed
qed

lemma transformar_ingress_error:
  assumes "input_a_rad U v1 unidad_in True = Inl e"
  shows "transformar N U v1 v2 origen destino unidad_in unidad_out kwargs = Inl e"
proof -
  have 1: "input_a_rad U v1 unidad_in b = Inl e" for b
    unfolding input_a_rad_es_tiempo [of U v1 unidad_in b True] by (rule assms)
  show ?thesis unfolding transformar_def Let_def 1 by simp
qed

lemma rad_a_output_unknown:
  "unidad \<notin> set unidades \<Longrightarrow> rad_a_output U x unidad b = Inl (InvalidUnit ''salida'' unidad)"
  by (simp add: rad_a_output_def unidades_def)

lemma transformar_output_unit_last:
  assumes "input_a_rad U v1 unidad_in True = Inr x1"
    and "input_a_rad U v2 unidad_in False = Inr x2"
    and "nucleo_transformacion N U x1 (if origen = HORIZONTAL then pi / 2 - x2 else x2)
           origen destino (normalizar_contexto kwargs) = Inr (r1, r2)"
    and "unidad_out \<notin> set unidades"
  shows "transformar N U v1 v2 origen destino unidad_in unidad_out kwargs
           = Inl (InvalidUnit ''salida'' unidad_out)"
proof -
  have 1: "input_a_rad U v1 unidad_in b = Inr x1" for b
    unfolding input_a_rad_es_tiempo [of U v1 unidad_in b True] by (rule assms(1))
  show ?thesis
    unfolding transformar_def Let_def 1 assms(2) using assms(3)
    by (simp add: rad_a_output_unknown [OF assms(4)])
qed

lemma nucleo_horizontal_missing:
  "ctx ''phi'' = None \<or> ctx ''TS'' = None \<Longrightarrow> HORIZONTAL \<noteq> destino \<Longrightarrow>
   nucleo_transformacion N U c1 c2 HORIZONTAL destino ctx
     = Inl (MissingContextParameter (if ctx ''phi'' = None then ''phi'' else ''TS'') HORIZONTAL)"
  by (auto simp: nucleo_transformacion_def origen_a_hub_def Sistema_distinct)

lemma nucleo_destino_horario_no_TS:
  "origen_a_hub N U c1 c2 origen ctx = Inr (alpha, delta) \<Longrightarrow> origen \<noteq> HORARIO \<Longrightarrow>
   ctx ''TS'' = None \<Longrightarrow>
   nucleo_transformacion N U c1 c2 origen HORARIO ctx
     = Inl (MissingContextParameter ''TS'' HORARIO)"
  by (simp add: nucleo_transformacion_def hub_a_destino_def Sistema_distinct)

lemma nucleo_destino_horizontal_missing:
  "origen_a_hub N U c1 c2 origen ctx = Inr (alpha, delta) \<Longrightarrow> origen \<noteq> HORIZONTAL \<Longrightarrow>
   ctx ''phi'' = None \<or> ctx ''TS'' = None \<Longrightarrow>
   nucleo_transformacion N U c1 c2 origen HORIZONTAL ctx
     = Inl (MissingContextParameter (if ctx ''phi'' = None then ''phi'' else ''TS'') HORIZONTAL)"
  by (auto simp: nucleo_transformacion_def hub_a_destino_def Sistema_distinct)


section \<open>The claims\<close>

subsection \<open>C2: every transform between distinct systems fails\<close>

text \<open>
  Claim C2. With the repository's \<^verbatim>\<open>core/utils.py\<close>, a call of \<open>transformar\<close> in radians
  between two distinct recognized systems, with every context key the two systems need,
  does not return: it raises \<^verbatim>\<open>AttributeError\<close> for \<^verbatim>\<open>utils.normalize_rad\<close>, whatever the
  coordinates, the output unit and the implementation of the trigonometric functions.
  The module has no attribute \<^verbatim>\<open>normalize_rad\<close>; its \<^verbatim>\<open>normalize_pi\<close> answers in
  \<open>[-pi, pi)\<close>.
\<close>

theorem transformar_distinct_systems_fails:
  assumes "origen \<in> set sistemas" and "destino \<in> set sistemas" and "origen \<noteq> destino"
    and "origen = HORARIO \<or> destino = HORARIO \<or> origen = HORIZONTAL \<or> destino = HORIZONTAL
           \<Longrightarrow> normalizar_contexto kwargs ''TS'' \<noteq> None"
    and "origen = HORIZONTAL \<or> destino = HORIZONTAL
           \<Longrightarrow> normalizar_contexto kwargs ''phi'' \<noteq> None"
  shows "transformar N utils_py (Num c1) (Num c2) origen destino RAD unidad_out kwargs
           = Inl (AttributeError ''normalize_rad'')
         \<and> attr_normalize_rad utils_py = None
         \<and> - pi \<le> normalize_pi a \<and> normalize_pi a < pi"
proof -
  have "nucleo_transformacion N utils_py x1 x2 origen destino (normalizar_contexto kwargs)
          = Inl (AttributeError ''normalize_rad'')" for x1 x2
    using assms by (intro nucleo_None utils_py_normalize_rad) 
  then show ?thesis
    using normalize_pi_range [of a]
    by (simp add: transformar_def input_a_rad_def utils_py_normalize_rad)
qed

theorem transformar_distinct_systems_fails_witness:
  "ECUATORIAL \<in> set sistemas \<and> GALACTICO \<in> set sistemas \<and> ECUATORIAL \<noteq> GALACTICO
   \<and> transformar numpy_exact utils_py (Num 0) (Num 0) ECUATORIAL GALACTICO RAD RAD Map.empty
       = Inl (AttributeError ''normalize_rad'')"
  using transformar_distinct_systems_fails
    [of ECUATORIAL GALACTICO Map.empty numpy_exact 0 0 RAD 0]
  by (simp add: sistemas_def Sistema_distinct)


subsection \<open>C4: missing context parameters\<close>

text \<open>
  Claim C4. Converting from Horary to Equatorial with a context that lacks \<^verbatim>\<open>TS\<close> fails
  with the missing-parameter error that names \<^verbatim>\<open>TS\<close> and the system \<^verbatim>\<open>horario\<close>: in the
  hub router for every input, and in \<open>transformar\<close> whenever the two coordinates pass the
  unit conversion. Whenever the router raises a missing-parameter error at all, the key
  is absent from the context, the system named is one of the two endpoints, and the pair
  is \<^verbatim>\<open>phi\<close> with Horizontal or \<^verbatim>\<open>TS\<close> with Horary or Horizontal: an Ecliptic or Galactic
  leg never asks for \<^verbatim>\<open>phi\<close> or \<^verbatim>\<open>TS\<close>.
\<close>

theorem missing_context_parameter:
  "(ctx ''TS'' = None \<longrightarrow>
      nucleo_transformacion N U c1 c2 HORARIO ECUATORIAL ctx
        = Inl (MissingContextParameter ''TS'' HORARIO))
   \<and> (normalizar_contexto kwargs ''TS'' = None
        \<and> input_a_rad U v1 unidad_in True = Inr x1
        \<and> input_a_rad U v2 unidad_in False = Inr x2 \<longrightarrow>
      transformar N U v1 v2 HORARIO ECUATORIAL unidad_in unidad_out kwargs
        = Inl (MissingContextParameter ''TS'' HORARIO))
   \<and> (nucleo_transformacion N U d1 d2 origen destino ctx' = Inl (MissingContextParameter k s) \<longrightarrow>
      ctx' k = None \<and> (s = origen \<or> s = destino)
      \<and> (k = ''phi'' \<and> s = HORIZONTAL \<or> k = ''TS'' \<and> (s = HORARIO \<or> s = HORIZONTAL)))"
proof (intro conjI impI)
  assume "ctx ''TS'' = None"
  then show "nucleo_transformacion N U c1 c2 HORARIO ECUATORIAL ctx
        = Inl (MissingContextParameter ''TS'' HORARIO)"
    by (simp add: nucleo_horario_no_TS Sistema_distinct)
next
  assume a: "normalizar_contexto kwargs ''TS'' = None
        \<and> input_a_rad U v1 unidad_in True = Inr x1
        \<and> input_a_rad U v2 unidad_in False = Inr x2"
  then show "transformar N U v1 v2 HORARIO ECUATORIAL unidad_in unidad_out kwargs
        = Inl (MissingContextParameter ''TS'' HORARIO)"
    by (simp add: transformar_def nucleo_horario_no_TS Sistema_distinct)
next
  assume a: "nucleo_transformacion N U d1 d2 origen destino ctx' = Inl (MissingContextParameter k s)"
  from nucleo_err [OF a]
  have "leg_error origen ctx' (MissingContextParameter k s)
        \<or> leg_error destino ctx' (MissingContextParameter k s)" by simp
  then show "ctx' k = None" by (auto dest: leg_error_missing)
  from \<open>leg_error origen ctx' (MissingContextParameter k s)
        \<or> leg_error destino ctx' (MissingContextParameter k s)\<close>
  show "s = origen \<or> s = destino" by (auto dest: leg_error_missing)
  from \<open>leg_error origen ctx' (MissingContextParameter k s)
        \<or> leg_error destino ctx' (MissingContextParameter k s)\<close>
  show "k = ''phi'' \<and> s = HORIZONTAL \<or> k = ''TS'' \<and> (s = HORARIO \<or> s = HORIZONTAL)"
    by (auto dest: leg_error_missing)
qed

theorem missing_context_parameter_witness:
  "(Map.empty :: contexto) ''TS'' = None
   \<and> nucleo_transformacion numpy_exact utils_py 1 2 HORARIO ECUATORIAL Map.empty
        = Inl (MissingContextParameter ''TS'' HORARIO)
   \<and> normalizar_contexto Map.empty ''TS'' = None
   \<and> input_a_rad utils_py (Num 1) RAD True = Inr 1
   \<and> input_a_rad utils_py (Num 2) RAD False = Inr 2
   \<and> transformar numpy_exact utils_py (Num 1) (Num 2) HORARIO ECUATORIAL RAD RAD Map.empty
        = Inl (MissingContextParameter ''TS'' HORARIO)
   \<and> nucleo_transformacion numpy_exact utils_py 0 0 ECUATORIAL HORIZONTAL Map.empty
        = Inl (MissingContextParameter ''phi'' HORIZONTAL)"
proof -
  have e: "normalizar_contexto Map.empty ''TS'' = None"
    by (simp add: normalizar_contexto_def)
  have i1: "input_a_rad utils_py (Num 1) RAD True = Inr 1"
    and i2: "input_a_rad utils_py (Num 2) RAD False = Inr 2"
    by (simp_all add: input_a_rad_def)
  have h: "nucleo_transformacion numpy_exact utils_py 0 0 ECUATORIAL HORIZONTAL Map.empty
        = Inl (MissingContextParameter ''phi'' HORIZONTAL)"
    by (simp add: nucleo_transformacion_def origen_a_hub_def hub_a_destino_def Sistema_distinct)
  show ?thesis
    using missing_context_parameter [where ctx = Map.empty and N = numpy_exact and U = utils_py
        and ?c1.0 = 1 and ?c2.0 = 2 and kwargs = Map.empty and ?v1.0 = "Num 1"
        and ?v2.0 = "Num 2" and unidad_in = RAD and unidad_out = RAD and ?x1.0 = 1 and ?x2.0 = 2
        and ?d1.0 = 0 and ?d2.0 = 0 and origen = ECUATORIAL and destino = HORIZONTAL
        and ctx' = Map.empty and k = "''phi''" and s = HORIZONTAL] e i1 i2 h
    by simp
qed

subsection \<open>C1: round trip\<close>

text \<open>
  Claim C1 (round trip between two distinct systems) does not hold of the code: the
  first of the two calls already fails. From Equatorial to Ecliptic in radians, at
  \<open>(1, 1/2)\<close>, \<open>transformar\<close> raises \<^verbatim>\<open>AttributeError\<close> for \<^verbatim>\<open>utils.normalize_rad\<close> and
  returns no coordinates to convert back.
\<close>

theorem roundtrip_first_leg_fails:
  "transformar numpy_exact utils_py (Num 1) (Num (1 / 2)) ECUATORIAL ECLIPTICO RAD RAD Map.empty
     = Inl (AttributeError ''normalize_rad'')"
  by (simp add: transformar_def input_a_rad_def nucleo_transformacion_def origen_a_hub_def
      hub_a_destino_def Sistema_distinct equatorial_to_ecliptic_None utils_py_normalize_rad)

subsection \<open>C5: unsupported systems\<close>

text \<open>
  Claim C5 (an unrecognized origin or destination tag makes the hub router fail with an
  unsupported-system error) does not hold of the code for the origin: with the origin
  tag \<^verbatim>\<open>foo\<close> and destination Equatorial the router returns \<open>(0, 0)\<close>, the initial value
  of \<^verbatim>\<open>alpha, delta\<close>, whatever the coordinates.
\<close>

theorem unknown_origin_defaults_hub:
  "nucleo_transformacion numpy_exact utils_py 1 2 ''foo'' ECUATORIAL Map.empty = Inr (0, 0)"
  by (simp add: nucleo_transformacion_def origen_a_hub_def hub_a_destino_def Sistema_defs)

subsection \<open>C7: range of the returned angles\<close>

text \<open>
  Claim C7 (returned longitude-like angles lie in \<open>[0, 2 pi)\<close>) does not hold of the
  code: no function of the transform library returns an angle. Each of the six ends in
  \<^verbatim>\<open>utils.normalize_rad\<close>, which the module does not have; the normalizer it does have,
  \<^verbatim>\<open>normalize_pi\<close>, sends \<open>3 pi / 2\<close> to \<open>- pi / 2\<close>, outside \<open>[0, 2 pi)\<close>.
\<close>

theorem library_returns_no_angle:
  "equatorial_to_ecliptic numpy_exact utils_py 0 0 EPSILON_J2000
     = Inl (AttributeError ''normalize_rad'')
   \<and> ecliptic_to_equatorial numpy_exact utils_py 0 0 EPSILON_J2000
     = Inl (AttributeError ''normalize_rad'')
   \<and> equatorial_to_galactic numpy_exact utils_py 0 0 = Inl (AttributeError ''normalize_rad'')
   \<and> galactic_to_equatorial numpy_exact utils_py 0 0 = Inl (AttributeError ''normalize_rad'')
   \<and> horizontal_to_horary numpy_exact utils_py 0 0 0 = Inl (AttributeError ''normalize_rad'')
   \<and> horary_to_horizontal numpy_exact utils_py 0 0 0 = Inl (AttributeError ''normalize_rad'')
   \<and> normalize_pi (3 * pi / 2) = - (pi / 2)"
  by (simp add: library_None utils_py_normalize_rad normalize_pi_three_half)


subsection \<open>C10: a zero first component\<close>

text \<open>
  Claim C10 says that a triplet whose first component is zero always enters as a
  non-negative angle, whatever the minutes and seconds. It fails for negative minutes:
  \<^verbatim>\<open>(0, -30, 0)\<close> in \<^verbatim>\<open>'dms'\<close> enters as \<open>- pi / 360\<close>, half a degree below zero, since
  \<^verbatim>\<open>to_rad\<close> takes the absolute value of the first component only.
\<close>

theorem dms_zero_degree_negative_minutes:
  "input_a_rad utils_py (Sexa 0 (- 30) 0) DMS False = Inr (- (pi / 360))
   \<and> transformar numpy_exact utils_py (Sexa 0 (- 30) 0) (Sexa 0 0 0) ECUATORIAL ECUATORIAL
        DMS RAD Map.empty = Inr (Num (- (pi / 360)), Num 0)
   \<and> - (pi / 360) < (0::real)"
  by (simp add: transformar_def input_a_rad_DMS to_rad_zero radians_def
      nucleo_transformacion_def rad_a_output_def Sistema_distinct)


text \<open>
  Claim C10 as amended. For a \<^verbatim>\<open>'dms'\<close> triplet \<^verbatim>\<open>(0, m, s)\<close> with non-negative minutes
  and seconds, ingress gives the non-negative angle \<open>(m / 60 + s / 3600) * pi / 180\<close>: the
  sign factor taken from the first component is \<open>+1\<close> when that component is zero.
\<close>

theorem dms_zero_degree_nonnegative:
  assumes "0 \<le> m" and "0 \<le> s"
  shows "input_a_rad utils_py (Sexa 0 m s) DMS es_tiempo = Inr (radians (m / 60 + s / 3600))
         \<and> 0 \<le> radians (m / 60 + s / 3600)"
  using assms by (simp add: input_a_rad_DMS to_rad_zero radians_def)

theorem dms_zero_degree_nonnegative_witness:
  "(0::real) \<le> 30 \<and> (0::real) \<le> 0
   \<and> input_a_rad utils_py (Sexa 0 30 0) DMS False = Inr (pi / 360)
   \<and> (0::real) \<le> pi / 360"
  using dms_zero_degree_nonnegative [of 30 0 False] by (simp add: radians_def)


subsection \<open>C8: sexagesimal decomposition\<close>

text \<open>
  Claim C8 says that both decompositions first normalize the angle into \<open>[0, 2 pi)\<close>.
  \<^verbatim>\<open>to_dms\<close> does not: \<open>- pi / 2\<close> decomposes into \<open>(-90, 0, 0)\<close>, where normalizing first
  gives \<open>(270, 0, 0)\<close>.
\<close>

theorem to_dms_does_not_normalize:
  "to_dms (- (pi / 2)) = (- 90, 0, 0) \<and> to_dms_normalized (- (pi / 2)) = (270, 0, 0)"
  by (simp add: to_dms_normalized_def py_mod_minus_half_pi to_dms_minus_half_pi
      to_dms_three_half_pi)


text \<open>
  Claim C8 as amended. \<^verbatim>\<open>to_hms\<close> first normalizes the angle with \<^verbatim>\<open>%\<close> into the closed
  interval \<open>[0, 2 pi]\<close> (the source's comment says "[0, 2pi]", and the float remainder can
  be \<open>2 pi\<close> itself) and splits it into an integer hour in \<open>[0, 24]\<close>, an integer minute and
  fractional seconds, both in \<open>[0, 60)\<close>, which add up to the normalized angle in hours:
  whatever \<^verbatim>\<open>%\<close> returns within its range. \<^verbatim>\<open>to_dms\<close> does not normalize: it splits the
  magnitude of the angle in degrees into integer degree, integer minute and fractional
  seconds, and puts the sign of the angle on the degree alone.
\<close>

theorem sexagesimal_decomposition:
  "(0 \<le> fmod rad (2 * pi) \<and> fmod rad (2 * pi) \<le> 2 * pi \<and> to_hms fmod rad = (h, m, s) \<longrightarrow>
      0 \<le> h \<and> h \<le> 24 \<and> 0 \<le> m \<and> m < 60 \<and> 0 \<le> s \<and> s < 60
      \<and> of_int h + of_int m / 60 + s / 3600 = degrees (fmod rad (2 * pi)) / 15)
   \<and> (to_dms rad' = (d, m', s') \<longrightarrow>
      0 \<le> m' \<and> m' < 60 \<and> 0 \<le> s' \<and> s' < 60
      \<and> of_int \<bar>d\<bar> + of_int m' / 60 + s' / 3600 = \<bar>degrees rad'\<bar>
      \<and> (0 \<le> rad' \<longrightarrow> 0 \<le> d) \<and> (rad' < 0 \<longrightarrow> d \<le> 0))"
  using to_hms_props [of fmod rad h m s] to_dms_props [of rad' d m' s'] by blast

theorem sexagesimal_decomposition_witness:
  "0 \<le> mod_rounding_up (- (1 / 10 ^ 20)) (2 * pi)
   \<and> mod_rounding_up (- (1 / 10 ^ 20)) (2 * pi) \<le> 2 * pi
   \<and> to_hms mod_rounding_up (- (1 / 10 ^ 20)) = (24, 0, 0)
   \<and> real_of_int 24 + real_of_int 0 / 60 + 0 / 3600
       = degrees (mod_rounding_up (- (1 / 10 ^ 20)) (2 * pi)) / 15
   \<and> to_dms (- (pi / 2)) = (- 90, 0, 0)
   \<and> real_of_int \<bar>- 90\<bar> + real_of_int 0 / 60 + 0 / 3600 = \<bar>degrees (- (pi / 2))\<bar>
   \<and> - (pi / 2) < 0 \<and> (- 90 :: int) \<le> 0"
proof -
  have r: "0 \<le> mod_rounding_up (- (1 / 10 ^ 20)) (2 * pi)"
    "mod_rounding_up (- (1 / 10 ^ 20)) (2 * pi) \<le> 2 * pi"
    unfolding mod_rounding_up_tiny_negative by simp_all
  from sexagesimal_decomposition [of mod_rounding_up "- (1 / 10 ^ 20)" 24 0 0
      "- (pi / 2)" "- 90" 0 0] r to_hms_tiny_negative to_dms_minus_half_pi
  have "real_of_int 24 + real_of_int 0 / 60 + 0 / 3600
          = degrees (mod_rounding_up (- (1 / 10 ^ 20)) (2 * pi)) / 15"
    and "real_of_int \<bar>- 90\<bar> + real_of_int 0 / 60 + 0 / 3600 = \<bar>degrees (- (pi / 2))\<bar>"
    and "- (pi / 2) < 0 \<longrightarrow> (- 90 :: int) \<le> 0"
    by blast+
  with r to_hms_tiny_negative to_dms_minus_half_pi show ?thesis by simp
qed

subsection \<open>C6: clamping before inverse sine and cosine\<close>

text \<open>
  Claim C6 (the argument of the inverse sine or cosine is clamped, so at an overshoot no
  domain fault is raised and the result is the value at the clamped boundary) does not
  hold of the code in its last part: there is no result. At the pole, \<open>A = 0\<close>, \<open>z = 0\<close>,
  \<open>phi = pi / 2\<close>, with a sine rounded up by \<open>2 ^ (-53)\<close> the combination for \<open>sin delta\<close>
  exceeds 1, the clamp brings it back and the inverse sine is \<open>pi / 2\<close> with no domain
  fault; but \<^verbatim>\<open>_horizontal_to_horary\<close> then raises \<^verbatim>\<open>AttributeError\<close> at
  \<^verbatim>\<open>utils.normalize_rad(H)\<close> and returns neither \<open>H\<close> nor \<open>delta\<close>, with the rounded sine
  and with the exact one.
\<close>

theorem clamped_latitude_not_returned:
  "1 < - np_sin numpy_rounding_up 0 * np_cos numpy_rounding_up 0 * np_cos numpy_rounding_up (pi / 2)
         + np_cos numpy_rounding_up 0 * np_sin numpy_rounding_up (pi / 2)
   \<and> arcsin_np numpy_rounding_up
         (np_clip (- np_sin numpy_rounding_up 0 * np_cos numpy_rounding_up 0
                     * np_cos numpy_rounding_up (pi / 2)
                   + np_cos numpy_rounding_up 0 * np_sin numpy_rounding_up (pi / 2)) (- 1) 1)
       = Inr (pi / 2)
   \<and> horizontal_to_horary numpy_rounding_up utils_py 0 0 (pi / 2)
       = Inl (AttributeError ''normalize_rad'')
   \<and> horizontal_to_horary numpy_exact utils_py 0 0 (pi / 2)
       = Inl (AttributeError ''normalize_rad'')"
  by (simp add: numpy_rounding_up_simps arcsin_np_def np_clip_def
      horizontal_to_horary_None utils_py_normalize_rad)

subsection \<open>C3: identity\<close>

text \<open>
  Claim C3 (with equal origin and destination, \<open>transformar\<close> only converts the unit, for
  all recognized units) does not hold of the code for the sexagesimal units: input in
  \<^verbatim>\<open>'hms'\<close> and output in \<^verbatim>\<open>'dms'\<close> or \<^verbatim>\<open>'hms'\<close> go through \<^verbatim>\<open>utils.hms_to_rad\<close>,
  \<^verbatim>\<open>utils.rad_to_dms\<close> and \<^verbatim>\<open>utils.rad_to_hms\<close>, none of which the module has. For the
  other units \<open>transformar_same_system\<close> gives the claim: the router is not entered and
  the two complements of the Horizontal system cancel.
\<close>

theorem identity_fails_for_sexagesimal_units:
  "transformar numpy_exact utils_py (Sexa 1 0 0) (Sexa 1 0 0) ECUATORIAL ECUATORIAL HMS RAD
      Map.empty = Inl (AttributeError ''hms_to_rad'')
   \<and> transformar numpy_exact utils_py (Num 1) (Num 1) ECUATORIAL ECUATORIAL RAD DMS
      Map.empty = Inl (AttributeError ''rad_to_dms'')
   \<and> transformar numpy_exact utils_py (Num 1) (Num 1) ECUATORIAL ECUATORIAL RAD HMS
      Map.empty = Inl (AttributeError ''rad_to_hms'')"
  by (simp add: transformar_def input_a_rad_def rad_a_output_def nucleo_same_system
      utils_py_attrs Unidad_distinct)


subsection \<open>C9: the errors of the entry point\<close>

text \<open>
  Claim C9 says that every error of \<open>transformar\<close> is one of the three taxonomy errors and
  is detected before any coordinate computation. A float passed under \<^verbatim>\<open>'dms'\<close> is indexed
  as an array in \<^verbatim>\<open>_input_a_rad\<close>, and numpy raises \<^verbatim>\<open>IndexError\<close>: in a call from Horary
  to Equatorial with no \<^verbatim>\<open>TS\<close> and with the unknown output unit \<^verbatim>\<open>bogus\<close>, that is the
  error, not the missing parameter and not the invalid unit, which are looked at only
  later.
\<close>

theorem ingress_error_precedes_validation:
  "transformar numpy_exact utils_py (Num 5) (Num 5) HORARIO ECUATORIAL DMS ''bogus'' Map.empty
     = Inl IndexError
   \<and> \<not> taxonomy IndexError"
  by (simp add: transformar_def input_a_rad_def Unidad_distinct utils_py_to_rad)



text \<open>
  Claim C9 as amended. For coordinates of the shape their unit expects, an error of
  \<open>transformar\<close> is one of the three taxonomy errors or a failed attribute lookup in
  \<^verbatim>\<open>utils\<close>. Each check sits where its value is used: an unrecognized input unit is
  detected first, and any error of the unit conversion on entry comes before everything
  else; an error of the hub router comes before the output unit is looked at; an
  unrecognized output unit is detected only after the router has returned. The router
  gives the same result for a context without \<^verbatim>\<open>epsilon\<close> and for that context with
  \<^verbatim>\<open>epsilon\<close> set to \<open>EPSILON_J2000\<close>. \<^verbatim>\<open>phi\<close> and \<^verbatim>\<open>TS\<close> have no default: a Horary leg
  without \<^verbatim>\<open>TS\<close> and a Horizontal leg without \<^verbatim>\<open>phi\<close> or \<^verbatim>\<open>TS\<close> fail with the
  missing-parameter error that names the key and the system, as origin for every input
  and as destination whenever the origin leg has returned.
\<close>

theorem errors_of_transformar:
  "(forma_valida v1 unidad_in \<and> forma_valida v2 unidad_in
      \<and> transformar N U v1 v2 origen destino unidad_in unidad_out kwargs = Inl e
    \<longrightarrow> taxonomy e \<or> attribute_error e)
   \<and> (u2 \<notin> set unidades \<longrightarrow>
        transformar N U a2 b2 o2 d2 u2 w2 kw2 = Inl (InvalidUnit ''entrada'' u2))
   \<and> (input_a_rad U a3 u3 True = Inl e3 \<longrightarrow>
        transformar N U a3 b3 o3 d3 u3 w3 kw3 = Inl e3)
   \<and> (input_a_rad U a4 u4 True = Inr x4 \<and> input_a_rad U b4 u4 False = Inr y4
        \<and> nucleo_transformacion N U x4 (if o4 = HORIZONTAL then pi / 2 - y4 else y4) o4 d4
             (normalizar_contexto kw4) = Inl e4
      \<longrightarrow> transformar N U a4 b4 o4 d4 u4 w4 kw4 = Inl e4)
   \<and> (input_a_rad U a5 u5 True = Inr x5 \<and> input_a_rad U b5 u5 False = Inr y5
        \<and> nucleo_transformacion N U x5 (if o5 = HORIZONTAL then pi / 2 - y5 else y5) o5 d5
             (normalizar_contexto kw5) = Inr (r5, s5)
        \<and> w5 \<notin> set unidades
      \<longrightarrow> transformar N U a5 b5 o5 d5 u5 w5 kw5 = Inl (InvalidUnit ''salida'' w5))
   \<and> (ctx6 ''epsilon'' = None \<longrightarrow>
        nucleo_transformacion N U x6 y6 o6 d6 ctx6
          = nucleo_transformacion N U x6 y6 o6 d6 (ctx6(''epsilon'' \<mapsto> EPSILON_J2000)))
   \<and> (ctx7 ''TS'' = None \<and> HORARIO \<noteq> d7 \<longrightarrow>
        nucleo_transformacion N U x7 y7 HORARIO d7 ctx7
          = Inl (MissingContextParameter ''TS'' HORARIO))
   \<and> ((ctx8 ''phi'' = None \<or> ctx8 ''TS'' = None) \<and> HORIZONTAL \<noteq> d8 \<longrightarrow>
        nucleo_transformacion N U x8 y8 HORIZONTAL d8 ctx8
          = Inl (MissingContextParameter (if ctx8 ''phi'' = None then ''phi'' else ''TS'')
                   HORIZONTAL))
   \<and> (origen_a_hub N U x9 y9 o9 ctx9 = Inr (alpha9, delta9) \<and> o9 \<noteq> HORARIO
        \<and> ctx9 ''TS'' = None \<longrightarrow>
        nucleo_transformacion N U x9 y9 o9 HORARIO ctx9
          = Inl (MissingContextParameter ''TS'' HORARIO))
   \<and> (origen_a_hub N U x10 y10 o10 ctx10 = Inr (alpha10, delta10) \<and> o10 \<noteq> HORIZONTAL
        \<and> (ctx10 ''phi'' = None \<or> ctx10 ''TS'' = None) \<longrightarrow>
        nucleo_transformacion N U x10 y10 o10 HORIZONTAL ctx10
          = Inl (MissingContextParameter (if ctx10 ''phi'' = None then ''phi'' else ''TS'')
                   HORIZONTAL))"
proof (intro conjI impI)
  assume "forma_valida v1 unidad_in \<and> forma_valida v2 unidad_in
      \<and> transformar N U v1 v2 origen destino unidad_in unidad_out kwargs = Inl e"
  then show "taxonomy e \<or> attribute_error e"
    using transformar_err_general [of N U v1 v2 origen destino unidad_in unidad_out kwargs e]
    by blast
next
  assume "u2 \<notin> set unidades"
  then show "transformar N U a2 b2 o2 d2 u2 w2 kw2 = Inl (InvalidUnit ''entrada'' u2)"
    by (rule transformar_unknown_input_unit)
next
  assume "input_a_rad U a3 u3 True = Inl e3"
  then show "transformar N U a3 b3 o3 d3 u3 w3 kw3 = Inl e3"
    by (rule transformar_ingress_error)
next
  assume "input_a_rad U a4 u4 True = Inr x4 \<and> input_a_rad U b4 u4 False = Inr y4
        \<and> nucleo_transformacion N U x4 (if o4 = HORIZONTAL then pi / 2 - y4 else y4) o4 d4
             (normalizar_contexto kw4) = Inl e4"
  then show "transformar N U a4 b4 o4 d4 u4 w4 kw4 = Inl e4"
    using transformar_router_error [of U a4 u4 x4 b4 y4 N o4 d4 kw4 e4 w4] by blast
next
  assume "input_a_rad U a5 u5 True = Inr x5 \<and> input_a_rad U b5 u5 False = Inr y5
        \<and> nucleo_transformacion N U x5 (if o5 = HORIZONTAL then pi / 2 - y5 else y5) o5 d5
             (normalizar_contexto kw5) = Inr (r5, s5)
        \<and> w5 \<notin> set unidades"
  then show "transformar N U a5 b5 o5 d5 u5 w5 kw5 = Inl (InvalidUnit ''salida'' w5)"
    using transformar_output_unit_last [of U a5 u5 x5 b5 y5 N o5 d5 kw5 r5 s5 w5] by blast
next
  assume "ctx6 ''epsilon'' = None"
  then show "nucleo_transformacion N U x6 y6 o6 d6 ctx6
          = nucleo_transformacion N U x6 y6 o6 d6 (ctx6(''epsilon'' \<mapsto> EPSILON_J2000))"
    by (simp add: nucleo_epsilon_default)
next
  assume "ctx7 ''TS'' = None \<and> HORARIO \<noteq> d7"
  then show "nucleo_transformacion N U x7 y7 HORARIO d7 ctx7
          = Inl (MissingContextParameter ''TS'' HORARIO)"
    by (simp add: nucleo_horario_no_TS)
next
  assume "(ctx8 ''phi'' = None \<or> ctx8 ''TS'' = None) \<and> HORIZONTAL \<noteq> d8"
  then show "nucleo_transformacion N U x8 y8 HORIZONTAL d8 ctx8
          = Inl (MissingContextParameter (if ctx8 ''phi'' = None then ''phi'' else ''TS'')
                   HORIZONTAL)"
    using nucleo_horizontal_missing [of ctx8 d8 N U x8 y8] by blast
next
  assume "origen_a_hub N U x9 y9 o9 ctx9 = Inr (alpha9, delta9) \<and> o9 \<noteq> HORARIO
        \<and> ctx9 ''TS'' = None"
  then show "nucleo_transformacion N U x9 y9 o9 HORARIO ctx9
          = Inl (MissingContextParameter ''TS'' HORARIO)"
    using nucleo_destino_horario_no_TS [of N U x9 y9 o9 ctx9 alpha9 delta9] by blast
next
  assume "origen_a_hub N U x10 y10 o10 ctx10 = Inr (alpha10, delta10) \<and> o10 \<noteq> HORIZONTAL
        \<and> (ctx10 ''phi'' = None \<or> ctx10 ''TS'' = None)"
  then show "nucleo_transformacion N U x10 y10 o10 HORIZONTAL ctx10
          = Inl (MissingContextParameter (if ctx10 ''phi'' = None then ''phi'' else ''TS'')
                   HORIZONTAL)"
    using nucleo_destino_horizontal_missing [of N U x10 y10 o10 ctx10 alpha10 delta10] by blast
qed


theorem errors_of_transformar_witness:
  "forma_valida (Num 0) RAD
   \<and> transformar numpy_exact utils_py (Num 0) (Num 0) ECUATORIAL ''bogus'' RAD RAD Map.empty
       = Inl (UnsupportedSystem ''bogus'')
   \<and> taxonomy (UnsupportedSystem ''bogus'')
   \<and> ''grad'' \<notin> set unidades
   \<and> transformar numpy_exact utils_py (Num 0) (Num 0) ECUATORIAL ''bogus'' ''grad'' ''grad''
         Map.empty = Inl (InvalidUnit ''entrada'' ''grad'')
   \<and> input_a_rad utils_py (Num 5) DMS True = Inl IndexError
   \<and> transformar numpy_exact utils_py (Num 5) (Num 5) HORARIO ECUATORIAL DMS ''grad'' Map.empty
       = Inl IndexError
   \<and> nucleo_transformacion numpy_exact utils_py 0 0 ECUATORIAL ''bogus''
         (normalizar_contexto Map.empty) = Inl (UnsupportedSystem ''bogus'')
   \<and> transformar numpy_exact utils_py (Num 0) (Num 0) ECUATORIAL ''bogus'' RAD ''grad'' Map.empty
       = Inl (UnsupportedSystem ''bogus'')
   \<and> nucleo_transformacion numpy_exact utils_py 0 0 ECUATORIAL ECUATORIAL
         (normalizar_contexto Map.empty) = Inr (0, 0)
   \<and> transformar numpy_exact utils_py (Num 0) (Num 0) ECUATORIAL ECUATORIAL RAD ''grad''
         Map.empty = Inl (InvalidUnit ''salida'' ''grad'')
   \<and> nucleo_transformacion numpy_exact utils_py 0 0 ECUATORIAL ''bogus'' Map.empty
       = nucleo_transformacion numpy_exact utils_py 0 0 ECUATORIAL ''bogus''
           [''epsilon'' \<mapsto> EPSILON_J2000]
   \<and> nucleo_transformacion numpy_exact utils_py 0 0 HORARIO ECUATORIAL Map.empty
       = Inl (MissingContextParameter ''TS'' HORARIO)
   \<and> nucleo_transformacion numpy_exact utils_py 0 0 HORIZONTAL ECUATORIAL Map.empty
       = Inl (MissingContextParameter ''phi'' HORIZONTAL)
   \<and> origen_a_hub numpy_exact utils_py 0 0 ECUATORIAL Map.empty = Inr (0, 0)
   \<and> nucleo_transformacion numpy_exact utils_py 0 0 ECUATORIAL HORARIO Map.empty
       = Inl (MissingContextParameter ''TS'' HORARIO)
   \<and> nucleo_transformacion numpy_exact utils_py 0 0 ECUATORIAL HORIZONTAL Map.empty
       = Inl (MissingContextParameter ''phi'' HORIZONTAL)"
proof -
  let ?N = numpy_exact and ?U = utils_py and ?E = "Map.empty :: contexto"
  have b: "ECUATORIAL \<noteq> ''bogus''" "''bogus'' \<notin> set sistemas"
    by (simp_all add: sistemas_def Sistema_defs)
  have f: "forma_valida (Num 0) RAD" by (simp add: Unidad_distinct)
  have n: "nucleo_transformacion ?N ?U 0 0 ECUATORIAL ''bogus'' ctx
             = Inl (UnsupportedSystem ''bogus'')" for ctx
    using b by (simp add: nucleo_transformacion_def origen_a_hub_def hub_a_destino_def
        sistemas_def)
  have i: "input_a_rad ?U (Num 0) RAD es = Inr 0" for es
    by (simp add: input_a_rad_def)
  have t: "transformar ?N ?U (Num 0) (Num 0) ECUATORIAL ''bogus'' RAD RAD ?E
             = Inl (UnsupportedSystem ''bogus'')"
    by (simp add: transformar_def i n Sistema_distinct)
  have g: "''grad'' \<notin> set unidades"
    by (simp add: unidades_def Unidad_defs)
  have x: "input_a_rad ?U (Num 5) DMS True = Inl IndexError"
    by (simp add: input_a_rad_def Unidad_distinct utils_py_to_rad)
  have s: "nucleo_transformacion ?N ?U 0 0 ECUATORIAL ECUATORIAL ctx = Inr (0, 0)" for ctx
    by (rule nucleo_same_system)
  have h: "origen_a_hub ?N ?U 0 0 ECUATORIAL ?E = Inr (0, 0)"
    by (simp add: origen_a_hub_def)
  show ?thesis
    using errors_of_transformar [where N = ?N and U = ?U
        and ?v1.0 = "Num 0" and ?v2.0 = "Num 0" and unidad_in = RAD and origen = ECUATORIAL
        and destino = "''bogus''" and unidad_out = RAD and kwargs = ?E
        and e = "UnsupportedSystem ''bogus''"
        and ?u2.0 = "''grad''" and ?a2.0 = "Num 0" and ?b2.0 = "Num 0" and ?o2.0 = ECUATORIAL
        and ?d2.0 = "''bogus''" and ?w2.0 = "''grad''" and ?kw2.0 = ?E
        and ?a3.0 = "Num 5" and ?u3.0 = DMS and ?e3.0 = IndexError and ?b3.0 = "Num 5"
        and ?o3.0 = HORARIO and ?d3.0 = ECUATORIAL and ?w3.0 = "''grad''" and ?kw3.0 = ?E
        and ?a4.0 = "Num 0" and ?b4.0 = "Num 0" and ?u4.0 = RAD and ?x4.0 = 0 and ?y4.0 = 0
        and ?o4.0 = ECUATORIAL and ?d4.0 = "''bogus''" and ?kw4.0 = ?E
        and ?e4.0 = "UnsupportedSystem ''bogus''" and ?w4.0 = "''grad''"
        and ?a5.0 = "Num 0" and ?b5.0 = "Num 0" and ?u5.0 = RAD and ?x5.0 = 0 and ?y5.0 = 0
        and ?o5.0 = ECUATORIAL and ?d5.0 = ECUATORIAL and ?kw5.0 = ?E and ?r5.0 = 0
        and ?s5.0 = 0 and ?w5.0 = "''grad''"
        and ?ctx6.0 = ?E and ?x6.0 = 0 and ?y6.0 = 0 and ?o6.0 = ECUATORIAL
        and ?d6.0 = "''bogus''"
        and ?ctx7.0 = ?E and ?d7.0 = ECUATORIAL and ?x7.0 = 0 and ?y7.0 = 0
        and ?ctx8.0 = ?E and ?d8.0 = ECUATORIAL and ?x8.0 = 0 and ?y8.0 = 0
        and ?x9.0 = 0 and ?y9.0 = 0 and ?o9.0 = ECUATORIAL and ?ctx9.0 = ?E
        and ?alpha9.0 = 0 and ?delta9.0 = 0
        and ?x10.0 = 0 and ?y10.0 = 0 and ?o10.0 = ECUATORIAL and ?ctx10.0 = ?E
        and ?alpha10.0 = 0 and ?delta10.0 = 0]
      f t i n g x s h
    by (simp add: Sistema_distinct)
qed

end
